theory Spec2Isabelle
  imports Main
begin

section \<open>JavaScript values, exceptions and effects\<close>

text \<open>
  The payment service is JavaScript: \<open>src/payment-service.js\<close> holds the plan catalog,
  the order creator, the signature verifier and the payment reconciler, and
  \<open>src/unnamed/part_000\<close> is the Express server that calls them. A JavaScript string is
  modelled as a \<open>string\<close> (its sequence of code units), and a value that may be missing
  (\<open>undefined\<close>: an unset environment variable, an absent request field, an omitted
  argument) as a \<open>string option\<close>, \<open>None\<close> being \<open>undefined\<close>.
\<close>

definition truthy :: "string option \<Rightarrow> bool" where
  \<comment> \<open>JavaScript truthiness: \<open>undefined\<close> and the empty string are falsy.\<close>
  "truthy v = (case v of None \<Rightarrow> False | Some s \<Rightarrow> s \<noteq> [])"

definition js_or :: "string option \<Rightarrow> string option \<Rightarrow> string option" where
  \<comment> \<open>The operator \<open>a || b\<close>.\<close>
  "js_or a b = (if truthy a then a else b)"

definition to_string :: "string option \<Rightarrow> string" where
  \<comment> \<open>String conversion, as in \<open>a + '|'\<close> and in a template literal.\<close>
  "to_string v = (case v of None \<Rightarrow> ''undefined'' | Some s \<Rightarrow> s)"

definition bool_string :: "bool \<Rightarrow> string" where
  "bool_string b = (if b then ''true'' else ''false'')"

fun decimal :: "nat \<Rightarrow> string" where
  \<comment> \<open>A non-negative integer in a template literal: its decimal digits.\<close>
  "decimal n =
     (if n < 10 then [''0123456789'' ! n]
      else decimal (n div 10) @ [''0123456789'' ! (n mod 10)])"

declare decimal.simps [simp del]

text \<open>
  A thrown value is either \<open>new Error(message)\<close> or an object rejected by the gateway
  SDK, of which the code reads \<open>error.error.description\<close> and \<open>error.message\<close>.
\<close>

datatype thrown =
    Error string
  | Rejection "string option" "string option"

fun error_description :: "thrown \<Rightarrow> string option" where
  "error_description (Error m) = None"
| "error_description (Rejection d m) = d"

fun error_message :: "thrown \<Rightarrow> string option" where
  "error_message (Error m) = Some m"
| "error_message (Rejection d m) = m"

datatype iso_time = ISO nat
  \<comment> \<open>\<open>new Date(t).toISOString()\<close> for the instant \<open>t\<close>, in milliseconds since the epoch.\<close>

datatype level = LOG | WARN | ERR

datatype detail =
    NoDetail
  | Exn thrown
  | StoreErr string
  | Flag bool
  | Fields "string option list"

type_synonym console_entry = "level \<times> string \<times> detail"

subsection \<open>The database rows and the calls made to the store\<close>

record payment_row =
  pay_user_id :: "string option"
  pay_provider :: "string option"
  pay_razorpay_order_id :: "string option"
  pay_amount :: "int option"
  pay_currency :: "string option"
  pay_status :: string
  pay_plan_id :: "string option"
  pay_metadata :: "string option \<times> string option"
  pay_razorpay_payment_id :: "string option"
  pay_razorpay_signature :: "string option"
  pay_updated_at :: "iso_time option"

record subscription_row =
  sub_user_id :: "string option"
  sub_plan_id :: "string option"
  sub_provider :: "string option"
  sub_status :: string
  sub_razorpay_payment_id :: "string option"
  sub_current_period_start :: iso_time
  sub_current_period_end :: iso_time

record profile_row =
  prof_id :: "string option"
  prof_plan :: "string option"

text \<open>
  The four calls the code sends to the database client:
  \<^item> \<open>PaymentsInsert row\<close> is \<open>from('payments').insert(row)\<close>;
  \<^item> \<open>PaymentsUpdate paymentId signature status updated_at orderId userId\<close> is
    \<open>from('payments').update({razorpay_payment_id, razorpay_signature, status,
    updated_at}).eq('razorpay_order_id', orderId).eq('user_id', userId)\<close>;
  \<^item> \<open>SubscriptionsUpsert row\<close> is \<open>from('subscriptions').upsert(row,
    {onConflict: 'user_id', ignoreDuplicates: false})\<close>;
  \<^item> \<open>ProfilesUpdate plan userId\<close> is \<open>from('profiles').update({plan}).eq('id', userId)\<close>.
\<close>

datatype store_call =
    PaymentsInsert payment_row
  | PaymentsUpdate "string option" "string option" string iso_time "string option" "string option"
  | SubscriptionsUpsert subscription_row
  | ProfilesUpdate "string option" "string option"

record order_options =
  opt_amount :: "int option"
  opt_currency :: "string option"
  opt_receipt :: string
  note_plan :: "string option"
  note_userId :: "string option"
  note_userEmail :: "string option"
  note_userName :: "string option"

record gateway_order =
  gw_id :: "string option"
  gw_amount :: int
  gw_currency :: "string option"
  gw_receipt :: "string option"
  gw_status :: "string option"

subsection \<open>The world a call runs in\<close>

text \<open>
  Everything a call can observe or change outside its arguments: what was written to the
  console, how often the clock was read, the calls sent to the store and to the gateway,
  and the three tables.
\<close>

record world =
  console :: "console_entry list"
  clock_reads :: nat
  store_calls :: "store_call list"
  gateway_calls :: "order_options list"
  payments :: "payment_row list"
  subscriptions :: "subscription_row list"
  profiles :: "profile_row list"

text \<open>
  The collaborators the code calls and does not define. They are parameters of the model:
  \<^item> \<open>hmac_sha256_hex key data\<close> is
    \<open>crypto.createHmac('sha256', key).update(data).digest('hex')\<close> of Node's crypto
    module, the lowercase hex HMAC-SHA256 of the UTF-8 bytes of \<open>data\<close>, or the value it
    throws;
  \<^item> \<open>orders_create options\<close> is \<open>razorpay.orders.create(options)\<close>: the order the
    gateway answers with, or the value it throws;
  \<^item> \<open>date_now k\<close> is what the \<open>k\<close>-th reading of the clock (\<open>Date.now()\<close>,
    \<open>new Date()\<close>) returns, in milliseconds;
  \<^item> \<open>store_error k\<close> is the \<open>error\<close> the database client returns for the \<open>k\<close>-th
    call sent to it, \<open>None\<close> when that call succeeds;
  \<^item> \<open>url_search_params\<close> is \<open>new URLSearchParams(...).toString()\<close>.
\<close>

record collaborators =
  hmac_sha256_hex :: "string \<Rightarrow> string \<Rightarrow> thrown + string"
  orders_create :: "order_options \<Rightarrow> thrown + gateway_order"
  date_now :: "nat \<Rightarrow> nat"
  store_error :: "nat \<Rightarrow> string option"
  url_search_params :: "(string \<times> string) list \<Rightarrow> string"

record environment =
  RAZORPAY_KEY_ID :: "string option"
  RAZORPAY_KEY_SECRET :: "string option"
  SUPABASE_URL :: "string option"
  SUPABASE_SERVICE_ROLE_KEY :: "string option"

text \<open>
  A JavaScript computation: from the world before to the world after, with either the
  value thrown (\<open>Inl\<close>) or the value returned (\<open>Inr\<close>). \<open>await\<close> is sequencing.
\<close>

type_synonym 'a js = "world \<Rightarrow> world \<times> (thrown + 'a)"

definition js_return :: "'a \<Rightarrow> 'a js" where
  "js_return v = (\<lambda>w. (w, Inr v))"

definition js_throw :: "thrown \<Rightarrow> 'a js" where
  "js_throw e = (\<lambda>w. (w, Inl e))"

definition js_bind :: "'a js \<Rightarrow> ('a \<Rightarrow> 'b js) \<Rightarrow> 'b js" where
  "js_bind m f = (\<lambda>w. case m w of (w', Inl e) \<Rightarrow> (w', Inl e) | (w', Inr v) \<Rightarrow> f v w')"

definition try_catch :: "'a js \<Rightarrow> (thrown \<Rightarrow> 'a js) \<Rightarrow> 'a js" where
  "try_catch m h = (\<lambda>w. case m w of (w', Inl e) \<Rightarrow> h e w' | (w', Inr v) \<Rightarrow> (w', Inr v))"

definition console_write :: "level \<Rightarrow> string \<Rightarrow> detail \<Rightarrow> unit js" where
  "console_write l msg d = (\<lambda>w. (w\<lparr>console := console w @ [(l, msg, d)]\<rparr>, Inr ()))"

definition Date_now :: "collaborators \<Rightarrow> nat js" where
  "Date_now x = (\<lambda>w. (w\<lparr>clock_reads := Suc (clock_reads w)\<rparr>, Inr (date_now x (clock_reads w))))"

definition createHmac_sha256_hex :: "collaborators \<Rightarrow> string \<Rightarrow> string \<Rightarrow> string js" where
  "createHmac_sha256_hex x key data = (\<lambda>w. (w, hmac_sha256_hex x key data))"

section \<open>The signature verifier (\<open>src/payment-service.js\<close>)\<close>

definition verifyPaymentSignature_try ::
  "collaborators \<Rightarrow> environment \<Rightarrow> string option \<Rightarrow> string option \<Rightarrow> string option \<Rightarrow> bool js"
where
  "verifyPaymentSignature_try x env orderId paymentId signature =
     (if \<not> truthy (RAZORPAY_KEY_SECRET env) then
        js_bind (console_write ERR ''Razorpay secret key not configured'' NoDetail) (\<lambda>_.
        js_return False)
      else
        let body = to_string orderId @ ''|'' @ to_string paymentId in
        js_bind (createHmac_sha256_hex x (to_string (RAZORPAY_KEY_SECRET env)) body)
          (\<lambda>expectedSignature.
        js_return (Some expectedSignature = signature)))"

definition verifyPaymentSignature ::
  "collaborators \<Rightarrow> environment \<Rightarrow> string option \<Rightarrow> string option \<Rightarrow> string option \<Rightarrow> bool js"
where
  "verifyPaymentSignature x env orderId paymentId signature =
     try_catch (verifyPaymentSignature_try x env orderId paymentId signature) (\<lambda>error.
       js_bind (console_write ERR ''Error verifying payment signature:'' (Exn error)) (\<lambda>_.
       js_return False))"

section \<open>The plan catalog (\<open>src/payment-service.js\<close>)\<close>

record plan_config =
  plan_name :: string
  plan_amount :: int
  plan_currency :: string
  plan_description :: string

definition PLAN_CONFIGS :: "(string \<times> plan_config) list" where
  "PLAN_CONFIGS =
     [(''pro'', \<lparr>plan_name = ''Pro'', plan_amount = 100, plan_currency = ''INR'',
         plan_description = ''Most popular choice''\<rparr>),
      (''pro_plus'', \<lparr>plan_name = ''Pro+'', plan_amount = 100, plan_currency = ''INR'',
         plan_description = ''For advanced learners''\<rparr>),
      (''ultra'', \<lparr>plan_name = ''Ultra'', plan_amount = 100, plan_currency = ''INR'',
         plan_description = ''Power users with live tutor features''\<rparr>)]"

text \<open>
  \<open>PLAN_CONFIGS\<close> is an object literal, so \<open>PLAN_CONFIGS[plan]\<close> finds the object's own
  three keys and, for any other key, the members every object inherits from
  \<open>Object.prototype\<close>. All of those are functions, which are truthy and have a \<open>name\<close>
  and no \<open>amount\<close>, \<open>currency\<close> or \<open>description\<close>, but for \<open>__proto__\<close>, which is the
  prototype object itself and has none of the four. The list gives each inherited key
  with the \<open>name\<close> of its value.
\<close>

definition Object_prototype :: "(string \<times> string option) list" where
  "Object_prototype =
     [(''constructor'', Some ''Object''),
      (''__defineGetter__'', Some ''__defineGetter__''),
      (''__defineSetter__'', Some ''__defineSetter__''),
      (''hasOwnProperty'', Some ''hasOwnProperty''),
      (''__lookupGetter__'', Some ''__lookupGetter__''),
      (''__lookupSetter__'', Some ''__lookupSetter__''),
      (''isPrototypeOf'', Some ''isPrototypeOf''),
      (''propertyIsEnumerable'', Some ''propertyIsEnumerable''),
      (''toString'', Some ''toString''),
      (''valueOf'', Some ''valueOf''),
      (''__proto__'', None),
      (''toLocaleString'', Some ''toLocaleString'')]"

datatype member =
    Undefined
  | Own plan_config
  | Inherited "string option"

definition PLAN_CONFIGS_get :: "string \<Rightarrow> member" where
  \<comment> \<open>\<open>PLAN_CONFIGS[key]\<close>\<close>
  "PLAN_CONFIGS_get key =
     (case map_of PLAN_CONFIGS key of
        Some c \<Rightarrow> Own c
      | None \<Rightarrow> (case map_of Object_prototype key of
                  Some n \<Rightarrow> Inherited n
                | None \<Rightarrow> Undefined))"

fun member_truthy :: "member \<Rightarrow> bool" where
  "member_truthy Undefined = False"
| "member_truthy (Own c) = True"
| "member_truthy (Inherited n) = True"

fun member_name :: "member \<Rightarrow> string option" where
  "member_name Undefined = None"
| "member_name (Own c) = Some (plan_name c)"
| "member_name (Inherited n) = n"

fun member_amount :: "member \<Rightarrow> int option" where
  "member_amount (Own c) = Some (plan_amount c)"
| "member_amount m = None"

fun member_currency :: "member \<Rightarrow> string option" where
  "member_currency (Own c) = Some (plan_currency c)"
| "member_currency m = None"

fun member_description :: "member \<Rightarrow> string option" where
  "member_description (Own c) = Some (plan_description c)"
| "member_description m = None"

definition getPlanDetails :: "string \<Rightarrow> member option" where
  \<comment> \<open>\<open>PLAN_CONFIGS[plan] || null\<close>, \<open>None\<close> being \<open>null\<close>\<close>
  "getPlanDetails plan =
     (if member_truthy (PLAN_CONFIGS_get plan) then Some (PLAN_CONFIGS_get plan) else None)"

definition getAllPlans :: "(string \<times> member) list" where
  \<comment> \<open>\<open>Object.keys(PLAN_CONFIGS)\<close> are the own keys, in the order they are written.\<close>
  "getAllPlans = map (\<lambda>plan. (plan, PLAN_CONFIGS_get plan)) (map fst PLAN_CONFIGS)"

definition in_catalog :: "string \<Rightarrow> bool" where
  "in_catalog plan = (plan \<in> set (map fst PLAN_CONFIGS))"

section \<open>The order creator (\<open>src/payment-service.js\<close>)\<close>

record order_result =
  ord_id :: "string option"
  ord_amount :: int
  ord_currency :: "string option"
  ord_receipt :: "string option"
  ord_status :: "string option"
  ord_plan :: "string option"
  ord_planName :: "string option"
  ord_planDescription :: "string option"

definition razorpay_orders_create :: "collaborators \<Rightarrow> order_options \<Rightarrow> gateway_order js" where
  "razorpay_orders_create x options =
     (\<lambda>w. (w\<lparr>gateway_calls := gateway_calls w @ [options]\<rparr>, orders_create x options))"

definition default_param :: "string option \<Rightarrow> string \<Rightarrow> string option" where
  \<comment> \<open>A parameter's default value stands in for \<open>undefined\<close> only.\<close>
  "default_param v d = (case v of None \<Rightarrow> Some d | Some s \<Rightarrow> Some s)"

definition receipt_of :: "string option \<Rightarrow> string option \<Rightarrow> nat \<Rightarrow> string" where
  "receipt_of plan userId now =
     (let shortUserId = take 10 (to_string (js_or userId (Some '''')))
      in take 40 (''ace_'' @ to_string plan @ ''_'' @ shortUserId @ ''_'' @ decimal now))"

definition createRazorpayOrder_try ::
  "collaborators \<Rightarrow> environment \<Rightarrow> string option \<Rightarrow> string option \<Rightarrow> string option \<Rightarrow>
   string option \<Rightarrow> order_result js"
where
  "createRazorpayOrder_try x env plan userId userEmail userName =
     (if \<not> truthy (RAZORPAY_KEY_ID env) \<or> \<not> truthy (RAZORPAY_KEY_SECRET env) then
        js_throw (Error ''Razorpay credentials not configured'')
      else
        let planConfig = PLAN_CONFIGS_get (to_string plan) in
        if \<not> member_truthy planConfig then
          js_throw (Error (''Invalid plan: '' @ to_string plan))
        else
          js_bind (Date_now x) (\<lambda>now.
          let receipt = receipt_of plan userId now;
              options = \<lparr>opt_amount = member_amount planConfig,
                         opt_currency = member_currency planConfig,
                         opt_receipt = receipt,
                         note_plan = plan,
                         note_userId = userId,
                         note_userEmail = default_param userEmail '''',
                         note_userName = default_param userName ''Ace User''\<rparr>
          in
          js_bind (razorpay_orders_create x options) (\<lambda>order.
          js_return \<lparr>ord_id = gw_id order,
                     ord_amount = gw_amount order,
                     ord_currency = gw_currency order,
                     ord_receipt = gw_receipt order,
                     ord_status = gw_status order,
                     ord_plan = plan,
                     ord_planName = member_name planConfig,
                     ord_planDescription = member_description planConfig\<rparr>)))"

definition createRazorpayOrder ::
  "collaborators \<Rightarrow> environment \<Rightarrow> string option \<Rightarrow> string option \<Rightarrow> string option \<Rightarrow>
   string option \<Rightarrow> order_result js"
where
  "createRazorpayOrder x env plan userId userEmail userName =
     try_catch (createRazorpayOrder_try x env plan userId userEmail userName) (\<lambda>error.
       js_bind (console_write ERR ''Error creating Razorpay order:'' (Exn error)) (\<lambda>_.
       let message = js_or (error_description error)
                       (js_or (error_message error) (Some ''Failed to create payment order''))
       in js_throw (Error (to_string message))))"

section \<open>The database client\<close>

text \<open>
  Modelled from the spec: the database is a hosted service, and its schema file is not
  among the sources. Section 6 of the specification gives the contract of its three
  tables: \<open>payments\<close> is updated where both the order id and the user id match,
  \<open>subscriptions\<close> is upserted with the user id as conflict target (the row of that user
  is overwritten by the columns sent, or a row is added when the user has none), and
  \<open>profiles\<close> has its \<open>plan\<close> column updated where the id matches. A call the service
  answers with an error changes nothing. A column the upsert does not send
  (\<open>sub_provider = None\<close>) keeps its value in the row that is overwritten.
\<close>

definition update_payments ::
  "string option \<Rightarrow> string option \<Rightarrow> string \<Rightarrow> iso_time \<Rightarrow> string option \<Rightarrow> string option \<Rightarrow>
   payment_row list \<Rightarrow> payment_row list"
where
  "update_payments paymentId signature status updated_at orderId userId rows =
     map (\<lambda>r. if pay_razorpay_order_id r = orderId \<and> pay_user_id r = userId
              then r\<lparr>pay_razorpay_payment_id := paymentId,
                     pay_razorpay_signature := signature,
                     pay_status := status,
                     pay_updated_at := Some updated_at\<rparr>
              else r) rows"

definition merge_subscription :: "subscription_row \<Rightarrow> subscription_row \<Rightarrow> subscription_row" where
  "merge_subscription old new =
     new\<lparr>sub_provider := (case sub_provider new of None \<Rightarrow> sub_provider old | Some p \<Rightarrow> Some p)\<rparr>"

fun upsert_subscriptions :: "subscription_row \<Rightarrow> subscription_row list \<Rightarrow> subscription_row list" where
  "upsert_subscriptions new [] = [new]"
| "upsert_subscriptions new (r # rs) =
     (if sub_user_id r = sub_user_id new then merge_subscription r new # rs
      else r # upsert_subscriptions new rs)"

definition update_profiles :: "string option \<Rightarrow> string option \<Rightarrow> profile_row list \<Rightarrow> profile_row list" where
  "update_profiles plan userId rows =
     map (\<lambda>r. if prof_id r = userId then r\<lparr>prof_plan := plan\<rparr> else r) rows"

fun store_apply :: "store_call \<Rightarrow> world \<Rightarrow> world" where
  "store_apply (PaymentsInsert row) w = w\<lparr>payments := payments w @ [row]\<rparr>"
| "store_apply (PaymentsUpdate paymentId signature status updated_at orderId userId) w =
     w\<lparr>payments := update_payments paymentId signature status updated_at orderId userId (payments w)\<rparr>"
| "store_apply (SubscriptionsUpsert row) w =
     w\<lparr>subscriptions := upsert_subscriptions row (subscriptions w)\<rparr>"
| "store_apply (ProfilesUpdate plan userId) w =
     w\<lparr>profiles := update_profiles plan userId (profiles w)\<rparr>"

definition supabase :: "collaborators \<Rightarrow> store_call \<Rightarrow> string option js" where
  \<comment> \<open>One awaited call of the client; the value returned is the \<open>error\<close> of the answer.\<close>
  "supabase x call =
     (\<lambda>w. let k = length (store_calls w);
              w1 = w\<lparr>store_calls := store_calls w @ [call]\<rparr>
          in case store_error x k of
               Some e \<Rightarrow> (w1, Inr (Some e))
             | None \<Rightarrow> (store_apply call w1, Inr None))"

definition supabaseAdmin :: "environment \<Rightarrow> bool" where
  \<comment> \<open>Whether the client was created: \<open>supabaseUrl && supabaseServiceRoleKey\<close>.\<close>
  "supabaseAdmin env = (truthy (SUPABASE_URL env) \<and> truthy (SUPABASE_SERVICE_ROLE_KEY env))"

section \<open>The payment reconciler (\<open>src/payment-service.js\<close>)\<close>

record payment_success =
  res_success :: bool
  res_orderId :: "string option"
  res_paymentId :: "string option"
  res_plan :: "string option"
  res_planName :: string
  res_amount :: int
  res_currency :: string
  res_timestamp :: iso_time
  res_userId :: "string option"

definition throw_on :: "string option \<Rightarrow> string \<Rightarrow> string \<Rightarrow> unit js" where
  \<comment> \<open>\<open>if (error) { console.error(label, error); throw new Error(message); }\<close>\<close>
  "throw_on error label message =
     (case error of
        Some e \<Rightarrow> js_bind (console_write ERR label (StoreErr e)) (\<lambda>_. js_throw (Error message))
      | None \<Rightarrow> js_return ())"

text \<open>
  The inner \<open>try\<close> block: the three store calls, in order. The clock is read once for
  \<open>updated_at\<close>, once for \<open>current_period_start\<close> and once more for
  \<open>current_period_end\<close>. (The console messages are given without their emoji.)
\<close>

definition subscription_of ::
  "string option \<Rightarrow> string option \<Rightarrow> string option \<Rightarrow> nat \<Rightarrow> nat \<Rightarrow> subscription_row"
where
  \<comment> \<open>The object sent to \<open>upsert\<close>; \<open>t2\<close> and \<open>t3\<close> are the two readings of the clock.\<close>
  "subscription_of userId plan paymentId t2 t3 =
     \<lparr>sub_user_id = userId,
      sub_plan_id = plan,
      sub_provider = Some ''razorpay'',
      sub_status = ''active'',
      sub_razorpay_payment_id = paymentId,
      sub_current_period_start = ISO t2,
      sub_current_period_end = ISO (t3 + 30 * 24 * 60 * 60 * 1000)\<rparr>"

definition persist ::
  "collaborators \<Rightarrow> string option \<Rightarrow> string option \<Rightarrow> string option \<Rightarrow> string option \<Rightarrow>
   string option \<Rightarrow> unit js"
where
  "persist x orderId paymentId signature plan userId =
     js_bind (Date_now x) (\<lambda>t1.
     js_bind (supabase x (PaymentsUpdate paymentId signature ''captured'' (ISO t1) orderId userId))
       (\<lambda>updatePaymentError.
     js_bind (throw_on updatePaymentError ''Supabase payment update error:''
                ''Failed to update payment record'') (\<lambda>_.
     js_bind (Date_now x) (\<lambda>t2.
     js_bind (Date_now x) (\<lambda>t3.
     js_bind (supabase x (SubscriptionsUpsert (subscription_of userId plan paymentId t2 t3)))
       (\<lambda>subscriptionError.
     js_bind (throw_on subscriptionError ''Supabase subscription upsert error:''
                ''Failed to create/update subscription'') (\<lambda>_.
     js_bind (supabase x (ProfilesUpdate plan userId)) (\<lambda>profileError.
     js_bind (throw_on profileError ''Supabase profile update error:''
                ''Failed to update user profile'') (\<lambda>_.
     console_write LOG
       (''Payment confirmed and subscription activated for user '' @ to_string userId @
        '', plan '' @ to_string plan) NoDetail)))))))))"

definition missing_parameters_message ::
  "string option \<Rightarrow> string option \<Rightarrow> string option \<Rightarrow> string option \<Rightarrow> string option \<Rightarrow>
   string"
where
  \<comment> \<open>The template literal of the first \<open>throw\<close>; \<open>!!v\<close> prints as \<open>true\<close> or \<open>false\<close>.\<close>
  "missing_parameters_message orderId paymentId signature plan userId =
     ''Missing required parameters: orderId='' @ bool_string (truthy orderId) @
     '', paymentId='' @ bool_string (truthy paymentId) @
     '', signature='' @ bool_string (truthy signature) @
     '', plan='' @ bool_string (truthy plan) @
     '', userId='' @ bool_string (truthy userId)"

definition success_of ::
  "string option \<Rightarrow> string option \<Rightarrow> string option \<Rightarrow> member \<Rightarrow> nat \<Rightarrow> string option \<Rightarrow>
   payment_success"
where
  \<comment> \<open>The object returned; \<open>planConfig?.amount || 0\<close> is 0 for a missing amount and for 0.\<close>
  "success_of orderId paymentId plan planConfig t userId =
     \<lparr>res_success = True,
      res_orderId = orderId,
      res_paymentId = paymentId,
      res_plan = plan,
      res_planName = to_string (js_or (member_name planConfig) (Some ''Unknown Plan'')),
      res_amount = (case member_amount planConfig of None \<Rightarrow> 0 | Some a \<Rightarrow> a),
      res_currency = to_string (js_or (member_currency planConfig) (Some ''INR'')),
      res_timestamp = ISO t,
      res_userId = userId\<rparr>"

text \<open>
  The rest of the outer \<open>try\<close> block, once the three checks have passed: the store
  calls when the client exists, in a \<open>try\<close> of their own whose \<open>catch\<close> throws again,
  and then the result.
\<close>

definition persist_and_return ::
  "collaborators \<Rightarrow> environment \<Rightarrow> string option \<Rightarrow> string option \<Rightarrow> string option \<Rightarrow>
   string option \<Rightarrow> member \<Rightarrow> string option \<Rightarrow> payment_success js"
where
  "persist_and_return x env orderId paymentId signature plan planConfig userId =
     js_bind
       (if supabaseAdmin env then
          try_catch (persist x orderId paymentId signature plan userId) (\<lambda>dbError.
            js_bind (console_write ERR ''Database persistence error:'' (Exn dbError)) (\<lambda>_.
            js_throw (Error (''Payment verification succeeded but database update failed: '' @
                             to_string (error_message dbError)))))
        else
          console_write WARN
            ''Supabase admin client not configured; skipping DB persistence'' NoDetail)
       (\<lambda>_.
     js_bind (Date_now x) (\<lambda>t.
     js_return (success_of orderId paymentId plan planConfig t userId)))"

definition recordPaymentSuccess_try ::
  "collaborators \<Rightarrow> environment \<Rightarrow> string option \<Rightarrow> string option \<Rightarrow> string option \<Rightarrow>
   string option \<Rightarrow> string option \<Rightarrow> payment_success js"
where
  "recordPaymentSuccess_try x env orderId paymentId signature plan userId =
     js_bind (console_write LOG ''Starting payment verification:''
                (Fields [orderId, paymentId, plan, userId])) (\<lambda>_.
     if \<not> truthy orderId \<or> \<not> truthy paymentId \<or> \<not> truthy signature \<or> \<not> truthy plan \<or>
        \<not> truthy userId
     then
       js_throw (Error (missing_parameters_message orderId paymentId signature plan userId))
     else
       js_bind (verifyPaymentSignature x env orderId paymentId signature) (\<lambda>isValidSignature.
       js_bind (console_write LOG ''Signature verification result:'' (Flag isValidSignature)) (\<lambda>_.
       if \<not> isValidSignature then js_throw (Error ''Invalid payment signature'')
       else
         let planConfig = PLAN_CONFIGS_get (to_string plan) in
         if \<not> member_truthy planConfig then
           js_throw (Error (''Invalid plan: '' @ to_string plan))
         else
           persist_and_return x env orderId paymentId signature plan planConfig userId)))"

definition recordPaymentSuccess ::
  "collaborators \<Rightarrow> environment \<Rightarrow> string option \<Rightarrow> string option \<Rightarrow> string option \<Rightarrow>
   string option \<Rightarrow> string option \<Rightarrow> payment_success js"
where
  "recordPaymentSuccess x env orderId paymentId signature plan userId =
     try_catch (recordPaymentSuccess_try x env orderId paymentId signature plan userId) (\<lambda>error.
       js_bind (console_write ERR ''Error recording payment success:'' (Exn error)) (\<lambda>_.
       js_throw (Error ''Failed to record payment success'')))"

section \<open>The HTTP handlers (\<open>src/unnamed/part_000\<close>)\<close>

record request =
  req_body :: "string \<Rightarrow> string option"
  req_query :: "string \<Rightarrow> string option"

datatype json_body =
    ErrorBody string
  | OrderBody order_result

datatype response =
    Redirect string
  | Send nat string
  | Json nat json_body

definition log_on :: "string option \<Rightarrow> string \<Rightarrow> unit js" where
  \<comment> \<open>\<open>if (error) { console.error(label, error); }\<close>\<close>
  "log_on error label =
     (case error of
        Some e \<Rightarrow> console_write ERR label (StoreErr e)
      | None \<Rightarrow> js_return ())"

text \<open>
  The store calls the handler of \<open>POST /success\<close> makes itself, after
  \<open>recordPaymentSuccess\<close> has returned: the same three calls again, each error only
  written to the console. The upsert of the handler sends no \<open>provider\<close>.
\<close>

definition persist_again ::
  "collaborators \<Rightarrow> string option \<Rightarrow> string option \<Rightarrow> string option \<Rightarrow> string option \<Rightarrow>
   string option \<Rightarrow> unit js"
where
  "persist_again x orderId paymentId signature plan userId =
     js_bind (Date_now x) (\<lambda>t1.
     js_bind (supabase x (PaymentsUpdate paymentId signature ''captured'' (ISO t1) orderId userId))
       (\<lambda>updatePaymentError.
     js_bind (log_on updatePaymentError ''Supabase payment update error:'') (\<lambda>_.
     js_bind (Date_now x) (\<lambda>t2.
     js_bind (Date_now x) (\<lambda>t3.
     js_bind (supabase x (SubscriptionsUpsert
                \<lparr>sub_user_id = userId,
                 sub_plan_id = plan,
                 sub_provider = None,
                 sub_status = ''active'',
                 sub_razorpay_payment_id = paymentId,
                 sub_current_period_start = ISO t2,
                 sub_current_period_end = ISO (t3 + 30 * 24 * 60 * 60 * 1000)\<rparr>))
       (\<lambda>subscriptionError.
     js_bind (log_on subscriptionError ''Supabase subscription upsert error:'') (\<lambda>_.
     js_bind (supabase x (ProfilesUpdate plan userId)) (\<lambda>profileError.
     log_on profileError ''Supabase profile update error:''))))))))"

definition success_redirect ::
  "collaborators \<Rightarrow> string option \<Rightarrow> string option \<Rightarrow> string option \<Rightarrow> string option \<Rightarrow> response"
where
  "success_redirect x paymentId orderId signature plan =
     (let q = url_search_params x
                [(''paymentId'', to_string paymentId), (''orderId'', to_string orderId),
                 (''signature'', to_string signature), (''plan'', to_string plan)]
      in Redirect (''/success?'' @ q))"

definition callback_fields ::
  "request \<Rightarrow> string option \<times> string option \<times> string option \<times> string option \<times> string option"
where
  \<comment> \<open>The five constants the handler reads first: payment id, order id, signature, plan, user id.\<close>
  "callback_fields req =
     (js_or (req_body req ''razorpay_payment_id'') (Some ''''),
      js_or (req_body req ''razorpay_order_id'') (Some ''''),
      js_or (req_body req ''razorpay_signature'') (Some ''''),
      js_or (req_body req ''plan'') (js_or (req_query req ''plan'') (Some '''')),
      js_or (req_body req ''userId'') (js_or (req_query req ''userId'') (Some '''')))"

definition post_success :: "collaborators \<Rightarrow> environment \<Rightarrow> request \<Rightarrow> response js" where
  "post_success x env req =
     try_catch
       (case callback_fields req of (paymentId, orderId, signature, plan, userId) \<Rightarrow>
        js_bind (recordPaymentSuccess x env orderId paymentId signature plan userId) (\<lambda>result.
        js_bind (if supabaseAdmin env
                 then persist_again x orderId paymentId signature plan userId
                 else js_return ()) (\<lambda>_.
        js_return (success_redirect x paymentId orderId signature plan))))
       (\<lambda>err.
        js_bind (console_write ERR ''POST /success verification error:'' (Exn err)) (\<lambda>_.
        js_return (Send 500 ''Payment verification failed.'')))"

text \<open>
  \<open>POST /api/create-order\<close>. The gateway answers with the amount as a number (section 6
  of the specification), so the handler inserts that number.
\<close>

definition post_api_create_order :: "collaborators \<Rightarrow> environment \<Rightarrow> request \<Rightarrow> response js" where
  "post_api_create_order x env req =
     try_catch
       (if \<not> truthy (RAZORPAY_KEY_ID env) \<or> \<not> truthy (RAZORPAY_KEY_SECRET env) then
          js_return (Json 500 (ErrorBody ''Payment service not configured''))
        else
          let plan = req_body req ''plan'';
              userId = req_body req ''userId'';
              userEmail = req_body req ''userEmail'';
              userName = req_body req ''userName''
          in
          if \<not> truthy plan \<or> \<not> truthy userId then
            js_return (Json 400 (ErrorBody ''Missing required parameters''))
          else
            js_bind (createRazorpayOrder x env plan userId userEmail userName) (\<lambda>order.
            js_bind
              (if supabaseAdmin env then
                 try_catch
                   (js_bind (supabase x (PaymentsInsert
                      \<lparr>pay_user_id = userId,
                       pay_provider = Some ''razorpay'',
                       pay_razorpay_order_id = ord_id order,
                       pay_amount = Some (ord_amount order),
                       pay_currency = js_or (ord_currency order) (Some ''INR''),
                       pay_status = ''pending'',
                       pay_plan_id = plan,
                       pay_metadata = (ord_planName order, ord_planDescription order),
                       pay_razorpay_payment_id = None,
                       pay_razorpay_signature = None,
                       pay_updated_at = None\<rparr>)) (\<lambda>_. js_return ()))
                   (\<lambda>dbErr. console_write ERR ''Supabase insert pending payment error:'' (Exn dbErr))
               else js_return ()) (\<lambda>_.
            js_return (Json 200 (OrderBody order)))))
       (\<lambda>error.
        js_bind (console_write ERR ''Error creating order:'' (Exn error)) (\<lambda>_.
        js_return (Json 500 (ErrorBody
          (to_string (js_or (error_message error) (Some ''Failed to create payment order'')))))))"

section \<open>Vocabulary of the statements\<close>

definition checked ::
  "string option \<Rightarrow> string option \<Rightarrow> string option \<Rightarrow> string option \<Rightarrow> console_entry list"
where
  \<comment> \<open>The two console lines of a call whose signature has been verified.\<close>
  "checked orderId paymentId plan userId =
     [(LOG, ''Starting payment verification:'', Fields [orderId, paymentId, plan, userId]),
      (LOG, ''Signature verification result:'', Flag True)]"

text \<open>
  A call of \<open>recordPaymentSuccess\<close> passes the three checks when its five parameters
  are present, the signature verifies and the plan is one of the catalog.
\<close>

definition passes_checks ::
  "collaborators \<Rightarrow> environment \<Rightarrow> string option \<Rightarrow> string option \<Rightarrow> string option \<Rightarrow>
   string option \<Rightarrow> string option \<Rightarrow> world \<Rightarrow> bool"
where
  "passes_checks x env orderId paymentId signature plan userId w =
     (truthy orderId \<and> truthy paymentId \<and> truthy signature \<and> truthy plan \<and> truthy userId \<and>
      snd (verifyPaymentSignature x env orderId paymentId signature w) = Inr True \<and>
      in_catalog (to_string plan))"

text \<open>
  The invariant of the subscriptions table, and what it is for a computation to keep it.
\<close>

definition one_row_per_user :: "world \<Rightarrow> bool" where
  "one_row_per_user w = distinct (map sub_user_id (subscriptions w))"

definition preserves :: "'a js \<Rightarrow> bool" where
  "preserves m = (\<forall>w. one_row_per_user w \<longrightarrow> one_row_per_user (fst (m w)))"

text \<open>
  Collaborators and a configuration for the closed examples below. The digest of the
  examples is a stand-in that writes its two arguments out (the examples need a digest
  that depends on the key and on the data, not its value); the clock of the examples
  advances one millisecond from one reading to the next; the database of
  \<open>sample_collaborators\<close> answers every call.
\<close>

definition sample_collaborators :: collaborators where
  "sample_collaborators =
     \<lparr>hmac_sha256_hex = (\<lambda>key data. Inr (''digest('' @ key @ '','' @ data @ '')'')),
      orders_create = (\<lambda>options. Inr \<lparr>gw_id = Some ''order_1'', gw_amount = 100,
                                      gw_currency = Some ''INR'',
                                      gw_receipt = Some (opt_receipt options),
                                      gw_status = Some ''created''\<rparr>),
      date_now = (\<lambda>k. 1700000000000 + k),
      store_error = (\<lambda>k. None),
      url_search_params = (\<lambda>ps. concat (map (\<lambda>(k, v). k @ ''='' @ v @ ''&'') ps))\<rparr>"

definition store_down :: collaborators where
  \<comment> \<open>The same collaborators with a database that answers every call with an error.\<close>
  "store_down = sample_collaborators\<lparr>store_error := (\<lambda>k. Some ''database unavailable'')\<rparr>"

definition store_down_from :: "nat \<Rightarrow> collaborators" where
  \<comment> \<open>A database that answers its first \<open>n\<close> calls and every later call with an error.\<close>
  "store_down_from n =
     sample_collaborators\<lparr>store_error :=
       (\<lambda>k. if k < n then None else Some ''database unavailable'')\<rparr>"

definition sample_environment :: environment where
  "sample_environment =
     \<lparr>RAZORPAY_KEY_ID = Some ''rzp_test_key'',
      RAZORPAY_KEY_SECRET = Some ''secret'',
      SUPABASE_URL = Some ''https://db.example'',
      SUPABASE_SERVICE_ROLE_KEY = Some ''service_role''\<rparr>"

definition callback_request :: "(string \<times> string) list \<Rightarrow> (string \<times> string) list \<Rightarrow> request" where
  \<comment> \<open>A request with the given form fields and the given query parameters.\<close>
  "callback_request form query = \<lparr>req_body = map_of form, req_query = map_of query\<rparr>"

definition valid_request :: request where
  \<comment> \<open>The gateway's three fields in the form, plan and user id in the query string.\<close>
  "valid_request =
     callback_request
       [(''razorpay_payment_id'', ''pay_1''), (''razorpay_order_id'', ''order_1''),
        (''razorpay_signature'', ''digest(secret,order_1|pay_1)'')]
       [(''plan'', ''pro''), (''userId'', ''u1'')]"

definition tampered_request :: request where
  "tampered_request =
     callback_request
       [(''razorpay_payment_id'', ''pay_1''), (''razorpay_order_id'', ''order_1''),
        (''razorpay_signature'', ''tampered''), (''plan'', ''pro''), (''userId'', ''u1'')]
       []"

definition query_only_request :: request where
  \<comment> \<open>The gateway's three fields, valid, in the query string and not in the form.\<close>
  "query_only_request =
     callback_request
       [(''plan'', ''pro''), (''userId'', ''u1'')]
       [(''razorpay_payment_id'', ''pay_1''), (''razorpay_order_id'', ''order_1''),
        (''razorpay_signature'', ''digest(secret,order_1|pay_1)'')]"

definition empty_world :: world where
  "empty_world =
     \<lparr>console = [], clock_reads = 0, store_calls = [], gateway_calls = [],
      payments = [], subscriptions = [], profiles = []\<rparr>"

definition subscribed_world :: world where
  \<comment> \<open>A world in which user \<open>u1\<close> has an older subscription and user \<open>u2\<close> has one too.\<close>
  "subscribed_world =
     empty_world\<lparr>subscriptions :=
       [\<lparr>sub_user_id = Some ''u1'', sub_plan_id = Some ''ultra'',
         sub_provider = Some ''razorpay'', sub_status = ''active'',
         sub_razorpay_payment_id = Some ''pay_0'',
         sub_current_period_start = ISO 1690000000000,
         sub_current_period_end = ISO 1692592000000\<rparr>,
        \<lparr>sub_user_id = Some ''u2'', sub_plan_id = Some ''pro'',
         sub_provider = Some ''razorpay'', sub_status = ''active'',
         sub_razorpay_payment_id = Some ''pay_9'',
         sub_current_period_start = ISO 1699000000000,
         sub_current_period_end = ISO 1701592000000\<rparr>]\<rparr>"

section \<open>Basic facts\<close>

lemmas js_defs = js_return_def js_throw_def js_bind_def try_catch_def console_write_def
  Date_now_def createHmac_sha256_hex_def

lemmas store_defs = persist_def supabase_def throw_on_def js_defs Let_def

lemma sample_simps:
  "RAZORPAY_KEY_ID sample_environment = Some ''rzp_test_key''"
  "RAZORPAY_KEY_SECRET sample_environment = Some ''secret''"
  "SUPABASE_URL sample_environment = Some ''https://db.example''"
  "SUPABASE_SERVICE_ROLE_KEY sample_environment = Some ''service_role''"
  "date_now sample_collaborators k = 1700000000000 + k"
  "store_error sample_collaborators k = None"
  "hmac_sha256_hex sample_collaborators key data = Inr (''digest('' @ key @ '','' @ data @ '')'')"
  by (simp_all add: sample_environment_def sample_collaborators_def)

lemma store_down_simps:
  "date_now store_down k = 1700000000000 + k"
  "store_error store_down k = Some ''database unavailable''"
  "hmac_sha256_hex store_down key data = Inr (''digest('' @ key @ '','' @ data @ '')'')"
  by (simp_all add: store_down_def sample_collaborators_def)

lemma store_down_from_simps:
  "date_now (store_down_from n) k = 1700000000000 + k"
  "store_error (store_down_from n) k = (if k < n then None else Some ''database unavailable'')"
  "hmac_sha256_hex (store_down_from n) key data = Inr (''digest('' @ key @ '','' @ data @ '')'')"
  "url_search_params (store_down_from n) ps = concat (map (\<lambda>(k, v). k @ ''='' @ v @ ''&'') ps)"
  by (simp_all add: store_down_from_def sample_collaborators_def)

lemma sample_facts:
  "supabaseAdmin sample_environment"
  "truthy (RAZORPAY_KEY_ID sample_environment)"
  "truthy (RAZORPAY_KEY_SECRET sample_environment)"
  "\<not> supabaseAdmin (sample_environment\<lparr>SUPABASE_URL := None\<rparr>)"
  by (simp_all add: supabaseAdmin_def truthy_def sample_simps)

lemma in_catalog_iff:
  "in_catalog plan \<longleftrightarrow> plan = ''pro'' \<or> plan = ''pro_plus'' \<or> plan = ''ultra''"
  by (auto simp: in_catalog_def PLAN_CONFIGS_def)

lemma in_catalog_get: "in_catalog plan \<Longrightarrow> \<exists>c. PLAN_CONFIGS_get plan = Own c"
  by (auto simp: in_catalog_iff PLAN_CONFIGS_get_def PLAN_CONFIGS_def)

lemma not_in_catalog_get:
  assumes "\<not> in_catalog plan"
  shows "PLAN_CONFIGS_get plan
         = (case map_of Object_prototype plan of Some n \<Rightarrow> Inherited n | None \<Rightarrow> Undefined)"
proof -
  from assms have "map_of PLAN_CONFIGS plan = None"
    by (simp add: in_catalog_def map_of_eq_None_iff)
  then show ?thesis
    by (simp add: PLAN_CONFIGS_get_def)
qed

lemma bogus_plan: "PLAN_CONFIGS_get ''bogus'' = Undefined"
  by (simp add: PLAN_CONFIGS_get_def PLAN_CONFIGS_def Object_prototype_def)

section \<open>The signature verifier\<close>

lemma verifyPaymentSignature_effect:
  "\<exists>b c. \<forall>w. verifyPaymentSignature x env orderId paymentId signature w
            = (w\<lparr>console := console w @ c\<rparr>, Inr b)"
proof (cases "truthy (RAZORPAY_KEY_SECRET env)")
  case False
  then show ?thesis
    by (auto simp: verifyPaymentSignature_def verifyPaymentSignature_try_def js_defs)
next
  case True
  show ?thesis
  proof (cases "hmac_sha256_hex x (to_string (RAZORPAY_KEY_SECRET env))
                  (to_string orderId @ ''|'' @ to_string paymentId)")
    case (Inl e)
    with True show ?thesis
      by (auto simp: verifyPaymentSignature_def verifyPaymentSignature_try_def js_defs)
  next
    case (Inr d)
    with True have "\<forall>w. verifyPaymentSignature x env orderId paymentId signature w
            = (w\<lparr>console := console w @ []\<rparr>, Inr (Some d = signature))"
      by (auto simp: verifyPaymentSignature_def verifyPaymentSignature_try_def js_defs)
    then show ?thesis by blast
  qed
qed

lemma verify_True_world:
  assumes "snd (verifyPaymentSignature x env orderId paymentId signature w) = Inr True"
  shows "verifyPaymentSignature x env orderId paymentId signature w' = (w', Inr True)"
proof (cases "truthy (RAZORPAY_KEY_SECRET env)")
  case False
  with assms show ?thesis
    by (simp add: verifyPaymentSignature_def verifyPaymentSignature_try_def js_defs)
next
  case True
  with assms show ?thesis
    by (cases "hmac_sha256_hex x (to_string (RAZORPAY_KEY_SECRET env))
                  (to_string orderId @ ''|'' @ to_string paymentId)")
       (auto simp: verifyPaymentSignature_def verifyPaymentSignature_try_def js_defs)
qed

lemma verify_digest:
  assumes "secret \<noteq> []"
    and "RAZORPAY_KEY_SECRET env = Some secret"
    and "hmac_sha256_hex x secret (orderId @ ''|'' @ paymentId) = Inr digest"
  shows "verifyPaymentSignature x env (Some orderId) (Some paymentId) signature w
         = (w, Inr (signature = Some digest))"
  using assms
  by (auto simp: verifyPaymentSignature_def verifyPaymentSignature_try_def js_defs truthy_def
      to_string_def)

lemma sample_verify:
  "verifyPaymentSignature sample_collaborators sample_environment (Some ''order_1'')
     (Some ''pay_1'') (Some ''digest(secret,order_1|pay_1)'') w = (w, Inr True)"
  "verifyPaymentSignature store_down sample_environment (Some ''order_1'')
     (Some ''pay_1'') (Some ''digest(secret,order_1|pay_1)'') w = (w, Inr True)"
  "verifyPaymentSignature sample_collaborators (sample_environment\<lparr>SUPABASE_URL := None\<rparr>)
     (Some ''order_1'') (Some ''pay_1'') (Some ''digest(secret,order_1|pay_1)'') w = (w, Inr True)"
  by (simp_all add: verify_digest [where secret = "''secret''"] sample_simps store_down_simps)

text \<open>
  Claim C1. With a non-empty secret configured, \<open>verifyPaymentSignature\<close> returns true
  exactly when the signature it is given is the string that
  \<open>crypto.createHmac('sha256', secret).update(orderId + '|' + paymentId).digest('hex')\<close>
  returns, that is the lowercase hex HMAC-SHA256, keyed by the secret, of the UTF-8
  bytes of \<open>orderId + '|' + paymentId\<close>. Nothing is written to the console and nothing
  else changes. The order id and the payment id are any strings, the empty string
  included: no input is treated apart. (For a non-empty string key and a string to
  digest, Node's crypto returns a digest; the last premise says so.)
\<close>

theorem verifyPaymentSignature_iff_hmac:
  assumes "secret \<noteq> []"
    and "RAZORPAY_KEY_SECRET env = Some secret"
    and "hmac_sha256_hex x secret (orderId @ ''|'' @ paymentId) = Inr digest"
  shows "verifyPaymentSignature x env (Some orderId) (Some paymentId) signature w
         = (w, Inr (signature = Some digest))"
  using assms
  by (auto simp: verifyPaymentSignature_def verifyPaymentSignature_try_def js_defs truthy_def
      to_string_def)

theorem verifyPaymentSignature_iff_hmac_witness:
  "verifyPaymentSignature sample_collaborators sample_environment (Some '''') (Some ''pay_1'')
     (Some ''digest(secret,|pay_1)'') empty_world = (empty_world, Inr True)
   \<and> verifyPaymentSignature sample_collaborators sample_environment (Some '''') (Some ''pay_1'')
     (Some ''digest(secret,pay_1)'') empty_world = (empty_world, Inr False)"
  using verifyPaymentSignature_iff_hmac [of "''secret''" sample_environment sample_collaborators
      "''''" "''pay_1''" "''digest(secret,|pay_1)''" "Some ''digest(secret,|pay_1)''" empty_world]
    verifyPaymentSignature_iff_hmac [of "''secret''" sample_environment sample_collaborators
      "''''" "''pay_1''" "''digest(secret,|pay_1)''" "Some ''digest(secret,pay_1)''" empty_world]
  by (simp add: sample_simps)

text \<open>
  Claim C8. For every order id, payment id and signature, every configuration of the
  secret and every behaviour of the crypto module (a throw included),
  \<open>verifyPaymentSignature\<close> returns a boolean and throws nothing; when the secret is
  absent or empty the boolean is false.
\<close>

theorem verifyPaymentSignature_never_throws:
  "(\<exists>b. snd (verifyPaymentSignature x env orderId paymentId signature w) = Inr b)
   \<and> (\<not> truthy (RAZORPAY_KEY_SECRET env)
        \<longrightarrow> snd (verifyPaymentSignature x env orderId paymentId signature w) = Inr False)"
  by (auto simp: verifyPaymentSignature_def verifyPaymentSignature_try_def js_defs
      split: sum.splits prod.splits)

theorem verifyPaymentSignature_never_throws_witness:
  "\<not> truthy (RAZORPAY_KEY_SECRET (sample_environment\<lparr>RAZORPAY_KEY_SECRET := None\<rparr>))
   \<and> snd (verifyPaymentSignature sample_collaborators
            (sample_environment\<lparr>RAZORPAY_KEY_SECRET := None\<rparr>)
            (Some ''order_1'') (Some ''pay_1'') (Some ''digest(secret,order_1|pay_1)'')
            empty_world) = Inr False
   \<and> \<not> truthy (RAZORPAY_KEY_SECRET (sample_environment\<lparr>RAZORPAY_KEY_SECRET := Some ''''\<rparr>))
   \<and> snd (verifyPaymentSignature sample_collaborators
            (sample_environment\<lparr>RAZORPAY_KEY_SECRET := Some ''''\<rparr>)
            (Some ''order_1'') (Some ''pay_1'') (Some ''digest(secret,order_1|pay_1)'')
            empty_world) = Inr False"
  using verifyPaymentSignature_never_throws [of sample_collaborators
      "sample_environment\<lparr>RAZORPAY_KEY_SECRET := None\<rparr>"
      "Some ''order_1''" "Some ''pay_1''" "Some ''digest(secret,order_1|pay_1)''" empty_world]
    verifyPaymentSignature_never_throws [of sample_collaborators
      "sample_environment\<lparr>RAZORPAY_KEY_SECRET := Some ''''\<rparr>"
      "Some ''order_1''" "Some ''pay_1''" "Some ''digest(secret,order_1|pay_1)''" empty_world]
  by (simp add: truthy_def)

section \<open>The order creator\<close>

lemma receipt_of_string:
  "receipt_of (Some plan) (Some userId) now
   = take 40 (''ace_'' @ plan @ ''_'' @ take 10 userId @ ''_'' @ decimal now)"
  by (simp add: receipt_of_def Let_def js_or_def truthy_def to_string_def)

text \<open>
  Claim C5. With the credentials configured, for every plan id of the catalog and every
  user id string, of any length, \<open>createRazorpayOrder\<close> sends the gateway exactly one
  order, whose receipt is the string \<open>ace_\<close>, the plan id, \<open>_\<close>, the first 10 characters
  of the user id, \<open>_\<close> and the clock's milliseconds in decimal, cut to its first 40
  characters; so the receipt is never longer than 40 characters.
\<close>

theorem createRazorpayOrder_receipt:
  assumes "truthy (RAZORPAY_KEY_ID env)" and "truthy (RAZORPAY_KEY_SECRET env)"
    and "in_catalog plan"
  shows "\<exists>options.
           gateway_calls (fst (createRazorpayOrder x env (Some plan) (Some userId) userEmail userName w))
             = gateway_calls w @ [options]
         \<and> opt_receipt options
             = take 40 (''ace_'' @ plan @ ''_'' @ take 10 userId @ ''_'' @
                        decimal (date_now x (clock_reads w)))
         \<and> length (opt_receipt options) \<le> 40"
proof -
  from assms(3) obtain c where c: "PLAN_CONFIGS_get plan = Own c"
    using in_catalog_get by blast
  show ?thesis
    using assms(1,2) c
    by (auto simp: createRazorpayOrder_def createRazorpayOrder_try_def js_defs Let_def
        razorpay_orders_create_def to_string_def receipt_of_string
        split: sum.splits prod.splits)
qed

theorem createRazorpayOrder_receipt_witness:
  "truthy (RAZORPAY_KEY_ID sample_environment) \<and> truthy (RAZORPAY_KEY_SECRET sample_environment)
   \<and> in_catalog ''pro_plus''
   \<and> (\<exists>options.
         gateway_calls (fst (createRazorpayOrder sample_collaborators sample_environment
             (Some ''pro_plus'') (Some (replicate 1000 (CHR ''u''))) None None empty_world))
           = [options]
       \<and> opt_receipt options = ''ace_pro_plus_uuuuuuuuuu_1700000000000''
       \<and> length (opt_receipt options) \<le> 40)"
proof -
  have h1: "truthy (RAZORPAY_KEY_ID sample_environment)"
    and h2: "truthy (RAZORPAY_KEY_SECRET sample_environment)"
    by (simp_all add: truthy_def sample_simps)
  have h3: "in_catalog ''pro_plus''"
    by (simp add: in_catalog_iff)
  have d: "decimal 1700000000000 = ''1700000000000''"
    by (simp add: decimal.simps)
  have r: "replicate 10 (CHR ''u'') = ''uuuuuuuuuu''"
    by (simp add: eval_nat_numeral)
  from createRazorpayOrder_receipt [OF h1 h2 h3, of sample_collaborators
      "replicate 1000 (CHR ''u'')" None None empty_world]
  show ?thesis
    using h1 h2 h3 by (simp add: sample_simps empty_world_def d r)
qed

text \<open>
  Claim C6. With the credentials configured, a plan id that is not in the catalog makes
  \<open>createRazorpayOrder\<close> throw \<open>Invalid plan: <plan>\<close> before the clock is read and
  before anything is sent to the gateway, unless the plan id is the name of a member of
  \<open>Object.prototype\<close> (\<open>constructor\<close>, \<open>toString\<close>, \<open>__proto__\<close>, ...): the lookup
  \<open>PLAN_CONFIGS[plan]\<close> then finds the inherited member, the test \<open>!planConfig\<close> does
  not fire, and an order with no amount and no currency is sent to the gateway. The
  example runs \<open>constructor\<close>, which reaches the gateway and comes back with the plan
  name \<open>Object\<close>, and \<open>bogus\<close>, which is refused.
\<close>

theorem createRazorpayOrder_unknown_plan:
  assumes "truthy (RAZORPAY_KEY_ID env)" and "truthy (RAZORPAY_KEY_SECRET env)"
    and "\<not> in_catalog plan"
  shows "(plan \<notin> fst ` set Object_prototype \<longrightarrow>
            createRazorpayOrder x env (Some plan) userId userEmail userName w
            = (w\<lparr>console := console w @
                 [(ERR, ''Error creating Razorpay order:'', Exn (Error (''Invalid plan: '' @ plan)))]\<rparr>,
               Inl (Error (''Invalid plan: '' @ plan))))
       \<and> (plan \<in> fst ` set Object_prototype \<longrightarrow>
            gateway_calls (fst (createRazorpayOrder x env (Some plan) userId userEmail userName w))
            = gateway_calls w @
              [\<lparr>opt_amount = None, opt_currency = None,
                opt_receipt = receipt_of (Some plan) userId (date_now x (clock_reads w)),
                note_plan = Some plan, note_userId = userId,
                note_userEmail = default_param userEmail '''',
                note_userName = default_param userName ''Ace User''\<rparr>])"
proof (cases "map_of Object_prototype plan")
  case None
  then have n: "plan \<notin> fst ` set Object_prototype"
    by (simp add: map_of_eq_None_iff)
  from None have g: "PLAN_CONFIGS_get plan = Undefined"
    by (simp add: not_in_catalog_get [OF assms(3)])
  show ?thesis
    using assms(1,2) n g
    by (simp add: createRazorpayOrder_def createRazorpayOrder_try_def js_defs Let_def
        to_string_def js_or_def truthy_def)
next
  case (Some name)
  then have n: "plan \<in> fst ` set Object_prototype"
    by (meson domI domIff map_of_eq_None_iff)
  from Some have g: "PLAN_CONFIGS_get plan = Inherited name"
    by (simp add: not_in_catalog_get [OF assms(3)])
  show ?thesis
    using assms(1,2) n g
    by (auto simp: createRazorpayOrder_def createRazorpayOrder_try_def js_defs Let_def
        to_string_def razorpay_orders_create_def split: sum.splits prod.splits)
qed

theorem createRazorpayOrder_unknown_plan_witness:
  "truthy (RAZORPAY_KEY_ID sample_environment) \<and> truthy (RAZORPAY_KEY_SECRET sample_environment)
   \<and> \<not> in_catalog ''constructor''
   \<and> gateway_calls (fst (createRazorpayOrder sample_collaborators sample_environment
        (Some ''constructor'') (Some ''u1'') None None empty_world))
      = [\<lparr>opt_amount = None, opt_currency = None,
          opt_receipt = ''ace_constructor_u1_1700000000000'',
          note_plan = Some ''constructor'', note_userId = Some ''u1'',
          note_userEmail = Some '''', note_userName = Some ''Ace User''\<rparr>]
   \<and> snd (createRazorpayOrder sample_collaborators sample_environment
        (Some ''constructor'') (Some ''u1'') None None empty_world)
      = Inr \<lparr>ord_id = Some ''order_1'', ord_amount = 100, ord_currency = Some ''INR'',
             ord_receipt = Some ''ace_constructor_u1_1700000000000'',
             ord_status = Some ''created'', ord_plan = Some ''constructor'',
             ord_planName = Some ''Object'', ord_planDescription = None\<rparr>
   \<and> createRazorpayOrder sample_collaborators sample_environment
        (Some ''bogus'') (Some ''u1'') None None empty_world
      = (empty_world\<lparr>console :=
           [(ERR, ''Error creating Razorpay order:'', Exn (Error ''Invalid plan: bogus''))]\<rparr>,
         Inl (Error ''Invalid plan: bogus''))"
proof -
  have d: "decimal 1700000000000 = ''1700000000000''"
    by (simp add: decimal.simps)
  have c: "\<not> in_catalog ''constructor''" "\<not> in_catalog ''bogus''"
    by (simp_all add: in_catalog_iff)
  have p: "''constructor'' \<in> fst ` set Object_prototype" "''bogus'' \<notin> fst ` set Object_prototype"
    by (simp_all add: Object_prototype_def)
  have g: "PLAN_CONFIGS_get ''constructor'' = Inherited (Some ''Object'')"
    by (simp add: PLAN_CONFIGS_get_def PLAN_CONFIGS_def Object_prototype_def)
  have r: "snd (createRazorpayOrder sample_collaborators sample_environment
        (Some ''constructor'') (Some ''u1'') None None empty_world)
      = Inr \<lparr>ord_id = Some ''order_1'', ord_amount = 100, ord_currency = Some ''INR'',
             ord_receipt = Some ''ace_constructor_u1_1700000000000'',
             ord_status = Some ''created'', ord_plan = Some ''constructor'',
             ord_planName = Some ''Object'', ord_planDescription = None\<rparr>"
    by (simp add: createRazorpayOrder_def createRazorpayOrder_try_def js_defs Let_def
        to_string_def razorpay_orders_create_def sample_simps g sample_collaborators_def
        empty_world_def receipt_of_def js_or_def truthy_def d)
  from createRazorpayOrder_unknown_plan [OF sample_facts(2,3) c(1), of sample_collaborators
      "Some ''u1''" None None empty_world]
    createRazorpayOrder_unknown_plan [OF sample_facts(2,3) c(2), of sample_collaborators
      "Some ''u1''" None None empty_world]
  show ?thesis
    using c p r
    by (simp add: sample_facts sample_simps empty_world_def receipt_of_def js_or_def truthy_def
        to_string_def default_param_def d)
qed

section \<open>The payment reconciler\<close>

subsection \<open>A call that fails a check\<close>

lemma rps_eq:
  "recordPaymentSuccess x env orderId paymentId signature plan userId w
   = (case recordPaymentSuccess_try x env orderId paymentId signature plan userId w of
        (w', Inl e) \<Rightarrow>
          (w'\<lparr>console := console w' @ [(ERR, ''Error recording payment success:'', Exn e)]\<rparr>,
           Inl (Error ''Failed to record payment success''))
      | (w', Inr r) \<Rightarrow> (w', Inr r))"
  by (simp add: recordPaymentSuccess_def js_defs split: prod.splits sum.splits)

lemma rps_of_try_Inl:
  "recordPaymentSuccess_try x env orderId paymentId signature plan userId w = (w', Inl e)
   \<Longrightarrow> recordPaymentSuccess x env orderId paymentId signature plan userId w
       = (w'\<lparr>console := console w' @ [(ERR, ''Error recording payment success:'', Exn e)]\<rparr>,
          Inl (Error ''Failed to record payment success''))"
  by (simp add: recordPaymentSuccess_def js_defs)

lemma rps_of_try_Inr:
  "recordPaymentSuccess_try x env orderId paymentId signature plan userId w = (w', Inr r)
   \<Longrightarrow> recordPaymentSuccess x env orderId paymentId signature plan userId w = (w', Inr r)"
  by (simp add: recordPaymentSuccess_def js_defs)

lemma rps_fails_generic:
  "snd (recordPaymentSuccess_try x env orderId paymentId signature plan userId w) = Inl e
   \<Longrightarrow> snd (recordPaymentSuccess x env orderId paymentId signature plan userId w)
       = Inl (Error ''Failed to record payment success'')"
  by (auto simp: rps_eq split: prod.splits sum.splits)

lemma try_missing:
  assumes "\<not> truthy orderId \<or> \<not> truthy paymentId \<or> \<not> truthy signature \<or> \<not> truthy plan \<or>
           \<not> truthy userId"
  shows "recordPaymentSuccess_try x env orderId paymentId signature plan userId w
         = (w\<lparr>console := console w @
               [(LOG, ''Starting payment verification:'', Fields [orderId, paymentId, plan, userId])]\<rparr>,
            Inl (Error (missing_parameters_message orderId paymentId signature plan userId)))"
  using assms
  unfolding recordPaymentSuccess_try_def
  by (simp add: js_bind_def console_write_def js_throw_def)

lemma try_invalid:
  assumes "truthy orderId" "truthy paymentId" "truthy signature" "truthy plan" "truthy userId"
    and "snd (verifyPaymentSignature x env orderId paymentId signature w) = Inr False"
  shows "\<exists>c. recordPaymentSuccess_try x env orderId paymentId signature plan userId w
         = (w\<lparr>console := console w @ c\<rparr>, Inl (Error ''Invalid payment signature''))"
proof -
  obtain b c where v: "\<And>w. verifyPaymentSignature x env orderId paymentId signature w
            = (w\<lparr>console := console w @ c\<rparr>, Inr b)"
    using verifyPaymentSignature_effect by blast
  with assms(6) have b: "b = False" by simp
  have "recordPaymentSuccess_try x env orderId paymentId signature plan userId w
         = (w\<lparr>console := console w @
              ((LOG, ''Starting payment verification:'', Fields [orderId, paymentId, plan, userId]) #
               c @ [(LOG, ''Signature verification result:'', Flag False)])\<rparr>,
            Inl (Error ''Invalid payment signature''))"
    using assms(1-5)
    unfolding recordPaymentSuccess_try_def
    by (simp add: js_bind_def console_write_def js_throw_def v b)
  then show ?thesis by blast
qed

lemma try_unknown_plan:
  assumes "truthy orderId" "truthy paymentId" "truthy signature" "truthy plan" "truthy userId"
    and "snd (verifyPaymentSignature x env orderId paymentId signature w) = Inr True"
    and "\<not> member_truthy (PLAN_CONFIGS_get (to_string plan))"
  shows "recordPaymentSuccess_try x env orderId paymentId signature plan userId w'
         = (w'\<lparr>console := console w' @ checked orderId paymentId plan userId\<rparr>,
            Inl (Error (''Invalid plan: '' @ to_string plan)))"
proof -
  have v: "verifyPaymentSignature x env orderId paymentId signature w'' = (w'', Inr True)"
    for w''
    by (rule verify_True_world [OF assms(6)])
  from assms(1-5,7) show ?thesis
    unfolding recordPaymentSuccess_try_def checked_def
    by (simp add: js_bind_def console_write_def js_throw_def v Let_def)
qed

lemma tampered_fails:
  "snd (recordPaymentSuccess sample_collaborators sample_environment (Some ''order_1'')
          (Some ''pay_1'') (Some ''tampered'') (Some ''pro'') (Some ''u1'') empty_world)
     = Inl (Error ''Failed to record payment success'')"
proof -
  have v: "snd (verifyPaymentSignature sample_collaborators sample_environment (Some ''order_1'')
          (Some ''pay_1'') (Some ''tampered'') empty_world) = Inr False"
    by (simp add: verify_digest [where secret = "''secret''"] sample_simps)
  have t: "snd (recordPaymentSuccess_try sample_collaborators sample_environment (Some ''order_1'')
           (Some ''pay_1'') (Some ''tampered'') (Some ''pro'') (Some ''u1'') empty_world)
      = Inl (Error ''Invalid payment signature'')"
    using try_invalid [OF _ _ _ _ _ v, of "Some ''pro''" "Some ''u1''"]
    by (auto simp: truthy_def)
  show ?thesis
    by (rule rps_fails_generic [OF t])
qed

text \<open>
  Claim C7. When any of the five inputs of \<open>recordPaymentSuccess\<close> is absent or empty,
  the \<open>try\<close> block raises the missing-parameters error right after its first console
  line: the signature is not verified (the outcome does not depend on the crypto
  module, and no verification result is written), no call is sent to the store, and
  the clock is not read. The function's \<open>catch\<close> writes that error to the console and
  throws \<open>Failed to record payment success\<close> to the caller. Order creation asks for
  less: with the credentials configured, \<open>POST /api/create-order\<close> answers
  \<open>400 Missing required parameters\<close> exactly when the plan or the user id is absent or
  empty.
\<close>

theorem recordPaymentSuccess_missing_parameters:
  assumes "\<not> truthy orderId \<or> \<not> truthy paymentId \<or> \<not> truthy signature \<or> \<not> truthy plan \<or>
           \<not> truthy userId"
  shows "recordPaymentSuccess_try x env orderId paymentId signature plan userId w
         = (w\<lparr>console := console w @
               [(LOG, ''Starting payment verification:'', Fields [orderId, paymentId, plan, userId])]\<rparr>,
            Inl (Error (missing_parameters_message orderId paymentId signature plan userId)))
       \<and> recordPaymentSuccess x env orderId paymentId signature plan userId w
         = (w\<lparr>console := console w @
               [(LOG, ''Starting payment verification:'', Fields [orderId, paymentId, plan, userId]),
                (ERR, ''Error recording payment success:'',
                 Exn (Error (missing_parameters_message orderId paymentId signature plan userId)))]\<rparr>,
            Inl (Error ''Failed to record payment success''))
       \<and> (truthy (RAZORPAY_KEY_ID env) \<and> truthy (RAZORPAY_KEY_SECRET env) \<longrightarrow>
            (snd (post_api_create_order x env req w')
               = Inr (Json 400 (ErrorBody ''Missing required parameters'')))
            = (\<not> truthy (req_body req ''plan'') \<or> \<not> truthy (req_body req ''userId'')))"
proof -
  note t = try_missing [OF assms, of x env w]
  have c: "truthy (RAZORPAY_KEY_ID env) \<and> truthy (RAZORPAY_KEY_SECRET env) \<longrightarrow>
            (snd (post_api_create_order x env req w')
               = Inr (Json 400 (ErrorBody ''Missing required parameters'')))
            = (\<not> truthy (req_body req ''plan'') \<or> \<not> truthy (req_body req ''userId''))"
    by (auto simp: post_api_create_order_def js_defs Let_def split: prod.splits sum.splits)
  show ?thesis
    using c by (simp add: t rps_of_try_Inl [OF t])
qed

theorem recordPaymentSuccess_missing_parameters_witness:
  "\<not> truthy (Some '''')
   \<and> recordPaymentSuccess sample_collaborators sample_environment (Some ''order_1'')
       (Some ''pay_1'') (Some ''digest(secret,order_1|pay_1)'') (Some ''pro'') (Some '''')
       empty_world
     = (empty_world\<lparr>console :=
          [(LOG, ''Starting payment verification:'',
            Fields [Some ''order_1'', Some ''pay_1'', Some ''pro'', Some '''']),
           (ERR, ''Error recording payment success:'',
            Exn (Error ''Missing required parameters: orderId=true, paymentId=true, signature=true, plan=true, userId=false''))]\<rparr>,
        Inl (Error ''Failed to record payment success''))
   \<and> snd (post_api_create_order sample_collaborators sample_environment
            \<lparr>req_body = map_of [(''plan'', ''pro''), (''userId'', ''u1'')], req_query = Map.empty\<rparr>
            empty_world)
     \<noteq> Inr (Json 400 (ErrorBody ''Missing required parameters''))
   \<and> snd (post_api_create_order sample_collaborators sample_environment
            \<lparr>req_body = map_of [(''plan'', ''pro''), (''userEmail'', ''a@b.c'')], req_query = Map.empty\<rparr>
            empty_world)
     = Inr (Json 400 (ErrorBody ''Missing required parameters''))"
  using recordPaymentSuccess_missing_parameters [of "Some ''order_1''" "Some ''pay_1''"
      "Some ''digest(secret,order_1|pay_1)''" "Some ''pro''" "Some ''''"
      sample_collaborators sample_environment empty_world
      "\<lparr>req_body = map_of [(''plan'', ''pro''), (''userId'', ''u1'')], req_query = Map.empty\<rparr>"
      empty_world]
    recordPaymentSuccess_missing_parameters [of "Some ''order_1''" "Some ''pay_1''"
      "Some ''digest(secret,order_1|pay_1)''" "Some ''pro''" "Some ''''"
      sample_collaborators sample_environment empty_world
      "\<lparr>req_body = map_of [(''plan'', ''pro''), (''userEmail'', ''a@b.c'')], req_query = Map.empty\<rparr>"
      empty_world]
  by (simp add: truthy_def sample_simps empty_world_def missing_parameters_message_def
      bool_string_def)

text \<open>
  Claim C2. Whenever signature verification fails on the input, \<open>recordPaymentSuccess\<close>
  fails: it throws, and it sends no call to the store, so the payments, subscriptions
  and profiles tables are what they were. The error raised in the \<open>try\<close> block is
  \<open>Invalid payment signature\<close> when the five parameters are all present; when one of them
  is absent or empty, the presence check, which comes before verification, raises the
  missing-parameters error instead. In both cases the function's own \<open>catch\<close> writes the
  error to the console and throws \<open>Failed to record payment success\<close> to the caller.
\<close>

theorem recordPaymentSuccess_invalid_signature:
  assumes "snd (verifyPaymentSignature x env orderId paymentId signature w) = Inr False"
  shows "snd (recordPaymentSuccess_try x env orderId paymentId signature plan userId w)
           = Inl (Error (if truthy orderId \<and> truthy paymentId \<and> truthy signature \<and> truthy plan \<and>
                            truthy userId
                         then ''Invalid payment signature''
                         else missing_parameters_message orderId paymentId signature plan userId))
       \<and> snd (recordPaymentSuccess x env orderId paymentId signature plan userId w)
           = Inl (Error ''Failed to record payment success'')
       \<and> store_calls (fst (recordPaymentSuccess x env orderId paymentId signature plan userId w))
           = store_calls w
       \<and> payments (fst (recordPaymentSuccess x env orderId paymentId signature plan userId w))
           = payments w
       \<and> subscriptions (fst (recordPaymentSuccess x env orderId paymentId signature plan userId w))
           = subscriptions w
       \<and> profiles (fst (recordPaymentSuccess x env orderId paymentId signature plan userId w))
           = profiles w"
proof (cases "truthy orderId \<and> truthy paymentId \<and> truthy signature \<and> truthy plan \<and> truthy userId")
  case True
  then obtain c where
    t: "recordPaymentSuccess_try x env orderId paymentId signature plan userId w
         = (w\<lparr>console := console w @ c\<rparr>, Inl (Error ''Invalid payment signature''))"
    using try_invalid [OF _ _ _ _ _ assms] by blast
  from True show ?thesis
    by (simp add: rps_of_try_Inl [OF t] t)
next
  case False
  then have m: "\<not> truthy orderId \<or> \<not> truthy paymentId \<or> \<not> truthy signature \<or> \<not> truthy plan \<or>
           \<not> truthy userId"
    by blast
  note t = try_missing [OF m, of x env w]
  from False have i: "(if truthy orderId \<and> truthy paymentId \<and> truthy signature \<and> truthy plan \<and>
                            truthy userId
                         then ''Invalid payment signature''
                         else missing_parameters_message orderId paymentId signature plan userId)
        = missing_parameters_message orderId paymentId signature plan userId"
    by (rule if_not_P)
  show ?thesis
    unfolding i by (simp add: rps_of_try_Inl [OF t] t)
qed

theorem recordPaymentSuccess_invalid_signature_witness:
  "snd (verifyPaymentSignature sample_collaborators sample_environment (Some ''order_1'')
          (Some ''pay_1'') (Some ''tampered'') empty_world) = Inr False
   \<and> snd (recordPaymentSuccess_try sample_collaborators sample_environment (Some ''order_1'')
          (Some ''pay_1'') (Some ''tampered'') (Some ''pro'') (Some ''u1'') empty_world)
       = Inl (Error ''Invalid payment signature'')
   \<and> snd (recordPaymentSuccess sample_collaborators sample_environment (Some ''order_1'')
          (Some ''pay_1'') (Some ''tampered'') (Some ''pro'') (Some ''u1'') empty_world)
       = Inl (Error ''Failed to record payment success'')
   \<and> store_calls (fst (recordPaymentSuccess sample_collaborators sample_environment
          (Some ''order_1'') (Some ''pay_1'') (Some ''tampered'') (Some ''pro'') (Some ''u1'')
          empty_world)) = []
   \<and> payments (fst (recordPaymentSuccess sample_collaborators sample_environment
          (Some ''order_1'') (Some ''pay_1'') (Some ''tampered'') (Some ''pro'') (Some ''u1'')
          empty_world)) = []
   \<and> subscriptions (fst (recordPaymentSuccess sample_collaborators sample_environment
          (Some ''order_1'') (Some ''pay_1'') (Some ''tampered'') (Some ''pro'') (Some ''u1'')
          empty_world)) = []
   \<and> profiles (fst (recordPaymentSuccess sample_collaborators sample_environment
          (Some ''order_1'') (Some ''pay_1'') (Some ''tampered'') (Some ''pro'') (Some ''u1'')
          empty_world)) = []"
proof -
  have v: "snd (verifyPaymentSignature sample_collaborators sample_environment (Some ''order_1'')
          (Some ''pay_1'') (Some ''tampered'') empty_world) = Inr False"
    by (simp add: verifyPaymentSignature_def verifyPaymentSignature_try_def js_defs truthy_def
        to_string_def sample_simps)
  from recordPaymentSuccess_invalid_signature [OF v, of "Some ''pro''" "Some ''u1''"] v
  show ?thesis
    by (simp add: truthy_def empty_world_def)
qed

text \<open>
  The claim as the specification words it fails on an empty signature. Verification
  fails on it, as on every signature that is not the digest, but the call never gets as
  far as verifying: the error raised is the missing-parameters one, not
  \<open>Invalid payment signature\<close>, and the caller is thrown the generic error.
\<close>

theorem recordPaymentSuccess_invalid_signature_counterexample:
  "snd (verifyPaymentSignature sample_collaborators sample_environment (Some ''order_1'')
          (Some ''pay_1'') (Some '''') empty_world) = Inr False
   \<and> snd (recordPaymentSuccess_try sample_collaborators sample_environment (Some ''order_1'')
          (Some ''pay_1'') (Some '''') (Some ''pro'') (Some ''u1'') empty_world)
       = Inl (Error ''Missing required parameters: orderId=true, paymentId=true, signature=false, plan=true, userId=true'')
   \<and> snd (recordPaymentSuccess_try sample_collaborators sample_environment (Some ''order_1'')
          (Some ''pay_1'') (Some '''') (Some ''pro'') (Some ''u1'') empty_world)
       \<noteq> Inl (Error ''Invalid payment signature'')
   \<and> snd (recordPaymentSuccess sample_collaborators sample_environment (Some ''order_1'')
          (Some ''pay_1'') (Some '''') (Some ''pro'') (Some ''u1'') empty_world)
       = Inl (Error ''Failed to record payment success'')"
proof -
  have v: "snd (verifyPaymentSignature sample_collaborators sample_environment (Some ''order_1'')
          (Some ''pay_1'') (Some '''') empty_world) = Inr False"
    by (simp add: verify_digest [where secret = "''secret''"] sample_simps)
  have m: "\<not> truthy (Some ''order_1'') \<or> \<not> truthy (Some ''pay_1'') \<or> \<not> truthy (Some '''') \<or>
           \<not> truthy (Some ''pro'') \<or> \<not> truthy (Some ''u1'')"
    by (simp add: truthy_def)
  note t = try_missing [OF m, of sample_collaborators sample_environment empty_world]
  have e: "snd (recordPaymentSuccess_try sample_collaborators sample_environment (Some ''order_1'')
          (Some ''pay_1'') (Some '''') (Some ''pro'') (Some ''u1'') empty_world)
       = Inl (Error ''Missing required parameters: orderId=true, paymentId=true, signature=false, plan=true, userId=true'')"
    by (simp add: t missing_parameters_message_def bool_string_def truthy_def)
  have n: "snd (recordPaymentSuccess_try sample_collaborators sample_environment (Some ''order_1'')
          (Some ''pay_1'') (Some '''') (Some ''pro'') (Some ''u1'') empty_world)
       \<noteq> Inl (Error ''Invalid payment signature'')"
    by (simp add: e)
  have g: "snd (recordPaymentSuccess sample_collaborators sample_environment (Some ''order_1'')
          (Some ''pay_1'') (Some '''') (Some ''pro'') (Some ''u1'') empty_world)
       = Inl (Error ''Failed to record payment success'')"
    by (rule rps_fails_generic [OF e])
  show ?thesis
    by (intro conjI v e n g)
qed

subsection \<open>A call that passes the checks\<close>

lemma persist_first_fails:
  assumes "store_error x (length (store_calls w)) = Some e"
  shows "persist x orderId paymentId signature plan userId w
         = (w\<lparr>clock_reads := Suc (clock_reads w),
               store_calls := store_calls w @
                 [PaymentsUpdate paymentId signature ''captured'' (ISO (date_now x (clock_reads w)))
                    orderId userId],
               console := console w @ [(ERR, ''Supabase payment update error:'', StoreErr e)]\<rparr>,
            Inl (Error ''Failed to update payment record''))"
  using assms by (simp add: store_defs)

lemma persist_second_fails:
  assumes "store_error x (length (store_calls w)) = None"
    and "store_error x (Suc (length (store_calls w))) = Some e"
  shows "persist x orderId paymentId signature plan userId w
         = (w\<lparr>clock_reads := clock_reads w + 3,
               store_calls := store_calls w @
                 [PaymentsUpdate paymentId signature ''captured'' (ISO (date_now x (clock_reads w)))
                    orderId userId,
                  SubscriptionsUpsert (subscription_of userId plan paymentId
                    (date_now x (clock_reads w + 1)) (date_now x (clock_reads w + 2)))],
               payments := update_payments paymentId signature ''captured''
                             (ISO (date_now x (clock_reads w))) orderId userId (payments w),
               console := console w @ [(ERR, ''Supabase subscription upsert error:'', StoreErr e)]\<rparr>,
            Inl (Error ''Failed to create/update subscription''))"
  using assms by (simp add: store_defs)

lemma persist_third_fails:
  assumes "store_error x (length (store_calls w)) = None"
    and "store_error x (Suc (length (store_calls w))) = None"
    and "store_error x (Suc (Suc (length (store_calls w)))) = Some e"
  shows "persist x orderId paymentId signature plan userId w
         = (w\<lparr>clock_reads := clock_reads w + 3,
               store_calls := store_calls w @
                 [PaymentsUpdate paymentId signature ''captured'' (ISO (date_now x (clock_reads w)))
                    orderId userId,
                  SubscriptionsUpsert (subscription_of userId plan paymentId
                    (date_now x (clock_reads w + 1)) (date_now x (clock_reads w + 2))),
                  ProfilesUpdate plan userId],
               payments := update_payments paymentId signature ''captured''
                             (ISO (date_now x (clock_reads w))) orderId userId (payments w),
               subscriptions := upsert_subscriptions (subscription_of userId plan paymentId
                    (date_now x (clock_reads w + 1)) (date_now x (clock_reads w + 2)))
                    (subscriptions w),
               console := console w @ [(ERR, ''Supabase profile update error:'', StoreErr e)]\<rparr>,
            Inl (Error ''Failed to update user profile''))"
  using assms by (simp add: store_defs)

lemma persist_succeeds:
  assumes "store_error x (length (store_calls w)) = None"
    and "store_error x (Suc (length (store_calls w))) = None"
    and "store_error x (Suc (Suc (length (store_calls w)))) = None"
  shows "persist x orderId paymentId signature plan userId w
         = (w\<lparr>clock_reads := clock_reads w + 3,
               store_calls := store_calls w @
                 [PaymentsUpdate paymentId signature ''captured'' (ISO (date_now x (clock_reads w)))
                    orderId userId,
                  SubscriptionsUpsert (subscription_of userId plan paymentId
                    (date_now x (clock_reads w + 1)) (date_now x (clock_reads w + 2))),
                  ProfilesUpdate plan userId],
               payments := update_payments paymentId signature ''captured''
                             (ISO (date_now x (clock_reads w))) orderId userId (payments w),
               subscriptions := upsert_subscriptions (subscription_of userId plan paymentId
                    (date_now x (clock_reads w + 1)) (date_now x (clock_reads w + 2)))
                    (subscriptions w),
               profiles := update_profiles plan userId (profiles w),
               console := console w @
                 [(LOG, ''Payment confirmed and subscription activated for user '' @
                        to_string userId @ '', plan '' @ to_string plan, NoDetail)]\<rparr>,
            Inr ())"
  using assms by (simp add: store_defs)

lemma par_no_client:
  assumes "\<not> supabaseAdmin env"
  shows "persist_and_return x env orderId paymentId signature plan planConfig userId w
         = (w\<lparr>console := console w @
               [(WARN, ''Supabase admin client not configured; skipping DB persistence'', NoDetail)],
               clock_reads := Suc (clock_reads w)\<rparr>,
            Inr (success_of orderId paymentId plan planConfig (date_now x (clock_reads w)) userId))"
  using assms by (simp add: persist_and_return_def js_defs)

lemma par_persist_Inl:
  assumes "supabaseAdmin env"
    and "persist x orderId paymentId signature plan userId w = (w', Inl (Error m))"
  shows "persist_and_return x env orderId paymentId signature plan planConfig userId w
         = (w'\<lparr>console := console w' @ [(ERR, ''Database persistence error:'', Exn (Error m))]\<rparr>,
            Inl (Error (''Payment verification succeeded but database update failed: '' @ m)))"
  using assms by (simp add: persist_and_return_def js_defs to_string_def)

lemma par_persist_Inr:
  assumes "supabaseAdmin env"
    and "persist x orderId paymentId signature plan userId w = (w', Inr u)"
  shows "persist_and_return x env orderId paymentId signature plan planConfig userId w
         = (w'\<lparr>clock_reads := Suc (clock_reads w')\<rparr>,
            Inr (success_of orderId paymentId plan planConfig (date_now x (clock_reads w')) userId))"
  using assms by (simp add: persist_and_return_def js_defs)

lemma passes_checks_try_eq:
  assumes "passes_checks x env orderId paymentId signature plan userId w"
  shows "recordPaymentSuccess_try x env orderId paymentId signature plan userId w'
         = persist_and_return x env orderId paymentId signature plan
             (PLAN_CONFIGS_get (to_string plan)) userId
             (w'\<lparr>console := console w' @ checked orderId paymentId plan userId\<rparr>)"
proof -
  from assms have m: "member_truthy (PLAN_CONFIGS_get (to_string plan))"
    using in_catalog_get by (fastforce simp: passes_checks_def)
  from assms have v0: "snd (verifyPaymentSignature x env orderId paymentId signature w) = Inr True"
    by (simp add: passes_checks_def)
  have v: "verifyPaymentSignature x env orderId paymentId signature w'' = (w'', Inr True)"
    for w''
    by (rule verify_True_world [OF v0])
  from assms m show ?thesis
    unfolding recordPaymentSuccess_try_def checked_def passes_checks_def
    by (simp add: js_bind_def console_write_def js_throw_def v Let_def)
qed

lemma passes_checks_world:
  assumes "passes_checks x env orderId paymentId signature plan userId w"
  shows "passes_checks x env orderId paymentId signature plan userId w'"
proof -
  from assms have "snd (verifyPaymentSignature x env orderId paymentId signature w) = Inr True"
    by (simp add: passes_checks_def)
  then have "verifyPaymentSignature x env orderId paymentId signature w' = (w', Inr True)"
    by (rule verify_True_world)
  with assms show ?thesis
    by (simp add: passes_checks_def)
qed

lemma rps_no_client:
  assumes "passes_checks x env orderId paymentId signature plan userId w"
    and "\<not> supabaseAdmin env"
  shows "recordPaymentSuccess x env orderId paymentId signature plan userId w
         = (w\<lparr>console := console w @ checked orderId paymentId plan userId @
               [(WARN, ''Supabase admin client not configured; skipping DB persistence'', NoDetail)],
               clock_reads := Suc (clock_reads w)\<rparr>,
            Inr (success_of orderId paymentId plan (PLAN_CONFIGS_get (to_string plan))
                   (date_now x (clock_reads w)) userId))"
  by (simp add: rps_eq passes_checks_try_eq [OF assms(1)] par_no_client [OF assms(2)])

lemma rps_first_fails:
  assumes "passes_checks x env orderId paymentId signature plan userId w"
    and "supabaseAdmin env"
    and "store_error x (length (store_calls w)) = Some e"
  shows "recordPaymentSuccess x env orderId paymentId signature plan userId w
         = (w\<lparr>clock_reads := Suc (clock_reads w),
               store_calls := store_calls w @
                 [PaymentsUpdate paymentId signature ''captured'' (ISO (date_now x (clock_reads w)))
                    orderId userId],
               console := console w @ checked orderId paymentId plan userId @
                 [(ERR, ''Supabase payment update error:'', StoreErr e),
                  (ERR, ''Database persistence error:'',
                   Exn (Error ''Failed to update payment record'')),
                  (ERR, ''Error recording payment success:'',
                   Exn (Error ''Payment verification succeeded but database update failed: Failed to update payment record''))]\<rparr>,
            Inl (Error ''Failed to record payment success''))"
proof -
  let ?w = "w\<lparr>console := console w @ checked orderId paymentId plan userId\<rparr>"
  have k: "length (store_calls ?w) = length (store_calls w)" by simp
  note r = par_persist_Inl [OF assms(2) persist_first_fails, of x ?w e, simplified k, OF assms(3)]
  show ?thesis
    by (simp add: rps_eq passes_checks_try_eq [OF assms(1)] r)
qed

lemma rps_second_fails:
  assumes "passes_checks x env orderId paymentId signature plan userId w"
    and "supabaseAdmin env"
    and "store_error x (length (store_calls w)) = None"
    and "store_error x (Suc (length (store_calls w))) = Some e"
  shows "recordPaymentSuccess x env orderId paymentId signature plan userId w
         = (w\<lparr>clock_reads := clock_reads w + 3,
               store_calls := store_calls w @
                 [PaymentsUpdate paymentId signature ''captured'' (ISO (date_now x (clock_reads w)))
                    orderId userId,
                  SubscriptionsUpsert (subscription_of userId plan paymentId
                    (date_now x (clock_reads w + 1)) (date_now x (clock_reads w + 2)))],
               payments := update_payments paymentId signature ''captured''
                             (ISO (date_now x (clock_reads w))) orderId userId (payments w),
               console := console w @ checked orderId paymentId plan userId @
                 [(ERR, ''Supabase subscription upsert error:'', StoreErr e),
                  (ERR, ''Database persistence error:'',
                   Exn (Error ''Failed to create/update subscription'')),
                  (ERR, ''Error recording payment success:'',
                   Exn (Error ''Payment verification succeeded but database update failed: Failed to create/update subscription''))]\<rparr>,
            Inl (Error ''Failed to record payment success''))"
proof -
  let ?w = "w\<lparr>console := console w @ checked orderId paymentId plan userId\<rparr>"
  have k: "length (store_calls ?w) = length (store_calls w)" by simp
  note r = par_persist_Inl [OF assms(2) persist_second_fails, of x ?w e, simplified k,
      OF assms(3,4)]
  show ?thesis
    by (simp add: rps_eq passes_checks_try_eq [OF assms(1)] r)
qed

lemma rps_third_fails:
  assumes "passes_checks x env orderId paymentId signature plan userId w"
    and "supabaseAdmin env"
    and "store_error x (length (store_calls w)) = None"
    and "store_error x (Suc (length (store_calls w))) = None"
    and "store_error x (Suc (Suc (length (store_calls w)))) = Some e"
  shows "recordPaymentSuccess x env orderId paymentId signature plan userId w
         = (w\<lparr>clock_reads := clock_reads w + 3,
               store_calls := store_calls w @
                 [PaymentsUpdate paymentId signature ''captured'' (ISO (date_now x (clock_reads w)))
                    orderId userId,
                  SubscriptionsUpsert (subscription_of userId plan paymentId
                    (date_now x (clock_reads w + 1)) (date_now x (clock_reads w + 2))),
                  ProfilesUpdate plan userId],
               payments := update_payments paymentId signature ''captured''
                             (ISO (date_now x (clock_reads w))) orderId userId (payments w),
               subscriptions := upsert_subscriptions (subscription_of userId plan paymentId
                    (date_now x (clock_reads w + 1)) (date_now x (clock_reads w + 2)))
                    (subscriptions w),
               console := console w @ checked orderId paymentId plan userId @
                 [(ERR, ''Supabase profile update error:'', StoreErr e),
                  (ERR, ''Database persistence error:'',
                   Exn (Error ''Failed to update user profile'')),
                  (ERR, ''Error recording payment success:'',
                   Exn (Error ''Payment verification succeeded but database update failed: Failed to update user profile''))]\<rparr>,
            Inl (Error ''Failed to record payment success''))"
proof -
  let ?w = "w\<lparr>console := console w @ checked orderId paymentId plan userId\<rparr>"
  have k: "length (store_calls ?w) = length (store_calls w)" by simp
  note r = par_persist_Inl [OF assms(2) persist_third_fails, of x ?w e, simplified k,
      OF assms(3,4,5)]
  show ?thesis
    by (simp add: rps_eq passes_checks_try_eq [OF assms(1)] r)
qed

lemma rps_succeeds:
  assumes "passes_checks x env orderId paymentId signature plan userId w"
    and "supabaseAdmin env"
    and "store_error x (length (store_calls w)) = None"
    and "store_error x (Suc (length (store_calls w))) = None"
    and "store_error x (Suc (Suc (length (store_calls w)))) = None"
  shows "recordPaymentSuccess x env orderId paymentId signature plan userId w
         = (w\<lparr>clock_reads := clock_reads w + 4,
               store_calls := store_calls w @
                 [PaymentsUpdate paymentId signature ''captured'' (ISO (date_now x (clock_reads w)))
                    orderId userId,
                  SubscriptionsUpsert (subscription_of userId plan paymentId
                    (date_now x (clock_reads w + 1)) (date_now x (clock_reads w + 2))),
                  ProfilesUpdate plan userId],
               payments := update_payments paymentId signature ''captured''
                             (ISO (date_now x (clock_reads w))) orderId userId (payments w),
               subscriptions := upsert_subscriptions (subscription_of userId plan paymentId
                    (date_now x (clock_reads w + 1)) (date_now x (clock_reads w + 2)))
                    (subscriptions w),
               profiles := update_profiles plan userId (profiles w),
               console := console w @ checked orderId paymentId plan userId @
                 [(LOG, ''Payment confirmed and subscription activated for user '' @
                        to_string userId @ '', plan '' @ to_string plan, NoDetail)]\<rparr>,
            Inr (success_of orderId paymentId plan (PLAN_CONFIGS_get (to_string plan))
                   (date_now x (clock_reads w + 3)) userId))"
proof -
  let ?w = "w\<lparr>console := console w @ checked orderId paymentId plan userId\<rparr>"
  have k: "length (store_calls ?w) = length (store_calls w)" by simp
  note r = par_persist_Inr [OF assms(2) persist_succeeds, of x ?w, simplified k,
      OF assms(3,4,5)]
  show ?thesis
    by (simp add: rps_eq passes_checks_try_eq [OF assms(1)] r)
qed

lemma sample_passes:
  "passes_checks sample_collaborators sample_environment (Some ''order_1'') (Some ''pay_1'')
     (Some ''digest(secret,order_1|pay_1)'') (Some ''pro'') (Some ''u1'') w"
  "passes_checks store_down sample_environment (Some ''order_1'') (Some ''pay_1'')
     (Some ''digest(secret,order_1|pay_1)'') (Some ''pro'') (Some ''u1'') w"
  "passes_checks sample_collaborators (sample_environment\<lparr>SUPABASE_URL := None\<rparr>)
     (Some ''order_1'') (Some ''pay_1'') (Some ''digest(secret,order_1|pay_1)'') (Some ''pro'')
     (Some ''u1'') w"
  by (simp_all add: passes_checks_def sample_verify truthy_def to_string_def in_catalog_iff)

lemma store_down_from_passes:
  "passes_checks (store_down_from n) sample_environment (Some ''order_1'') (Some ''pay_1'')
     (Some ''digest(secret,order_1|pay_1)'') (Some ''pro'') (Some ''u1'') w"
  by (simp add: passes_checks_def verify_digest [where secret = "''secret''"] sample_simps
      store_down_from_simps truthy_def to_string_def in_catalog_iff)

lemma sample_no_errors: "\<forall>i < 6. store_error sample_collaborators (length (store_calls w) + i) = None"
  by (simp add: sample_simps)

subsection \<open>The store calls of the handlers\<close>

lemma persist_again_returns:
  "\<exists>w'. persist_again x orderId paymentId signature plan userId w = (w', Inr ())"
  by (simp add: persist_again_def supabase_def log_on_def js_defs Let_def
      split: option.splits)

lemma post_success_eq:
  assumes "callback_fields req = (paymentId, orderId, signature, plan, userId)"
  shows "post_success x env req w
         = (case recordPaymentSuccess x env orderId paymentId signature plan userId w of
              (w', Inl e) \<Rightarrow>
                (w'\<lparr>console := console w' @
                     [(ERR, ''POST /success verification error:'', Exn e)]\<rparr>,
                 Inr (Send 500 ''Payment verification failed.''))
            | (w', Inr r) \<Rightarrow>
                (if supabaseAdmin env
                 then fst (persist_again x orderId paymentId signature plan userId w')
                 else w',
                 Inr (success_redirect x paymentId orderId signature plan)))"
proof (cases "recordPaymentSuccess x env orderId paymentId signature plan userId w")
  case (Pair w' res)
  show ?thesis
  proof (cases res)
    case (Inl e)
    with Pair assms show ?thesis
      by (simp add: post_success_def js_defs)
  next
    case (Inr r)
    obtain w'' where p: "persist_again x orderId paymentId signature plan userId w' = (w'', Inr ())"
      using persist_again_returns by blast
    with Pair Inr assms show ?thesis
      by (simp add: post_success_def js_defs)
  qed
qed

lemma request_fields:
  "callback_fields valid_request
   = (Some ''pay_1'', Some ''order_1'', Some ''digest(secret,order_1|pay_1)'', Some ''pro'', Some ''u1'')"
  "callback_fields tampered_request
   = (Some ''pay_1'', Some ''order_1'', Some ''tampered'', Some ''pro'', Some ''u1'')"
  "callback_fields query_only_request = (Some '''', Some '''', Some '''', Some ''pro'', Some ''u1'')"
  by (simp_all add: callback_fields_def valid_request_def tampered_request_def
      query_only_request_def callback_request_def js_or_def truthy_def)

lemma tampered_response:
  "snd (post_success sample_collaborators sample_environment tampered_request empty_world)
     = Inr (Send 500 ''Payment verification failed.'')"
  using tampered_fails
  by (cases "recordPaymentSuccess sample_collaborators sample_environment (Some ''order_1'')
        (Some ''pay_1'') (Some ''tampered'') (Some ''pro'') (Some ''u1'') empty_world")
     (simp add: post_success_eq [OF request_fields(2)])

lemma persist_again_calls:
  "snd (persist_again x orderId paymentId signature plan userId w) = Inr ()
   \<and> store_calls (fst (persist_again x orderId paymentId signature plan userId w))
     = store_calls w @
       [PaymentsUpdate paymentId signature ''captured'' (ISO (date_now x (clock_reads w)))
          orderId userId,
        SubscriptionsUpsert
          \<lparr>sub_user_id = userId, sub_plan_id = plan, sub_provider = None,
           sub_status = ''active'', sub_razorpay_payment_id = paymentId,
           sub_current_period_start = ISO (date_now x (clock_reads w + 1)),
           sub_current_period_end = ISO (date_now x (clock_reads w + 2) + 2592000000)\<rparr>,
        ProfilesUpdate plan userId]"
  by (simp add: persist_again_def supabase_def log_on_def js_defs Let_def
      split: option.splits)

lemma store_down_response:
  "snd (post_success store_down sample_environment valid_request empty_world)
   = Inr (Send 500 ''Payment verification failed.'')"
  using rps_first_fails [OF sample_passes(2) sample_facts(1), of empty_world
      "''database unavailable''"]
  by (simp add: post_success_eq [OF request_fields(1)] store_down_simps empty_world_def)

subsection \<open>Database failures\<close>

text \<open>
  Claim C3, as the code has it. Take a call of \<open>recordPaymentSuccess\<close> that passes the
  three checks (five parameters present, signature valid, plan in the catalog).
  \<^item> When the database client was never created (the URL or the service key is not
    configured), the call sends nothing to the store, writes a warning to the console
    and returns the success result.
  \<^item> When the client exists and a store call is answered with an error, that error is
    written to the console, the store calls that would follow are not sent, and the
    call throws \<open>Failed to record payment success\<close>: a failure of the payment update
    leaves one call sent, of the subscription upsert two, of the profile update three.
  \<^item> The call returns the success result with a client only when all three store calls
    succeeded.
  \<^item> Logging a database error and going on with the next step is what the callback
    handler does in the three store calls it makes itself once \<open>recordPaymentSuccess\<close>
    has returned: those three calls are all sent and nothing is thrown, whatever the
    database answers.
\<close>

theorem recordPaymentSuccess_store_failure:
  assumes "passes_checks x env orderId paymentId signature plan userId w"
  shows
    "(\<not> supabaseAdmin env \<longrightarrow>
        snd (recordPaymentSuccess x env orderId paymentId signature plan userId w)
          = Inr (success_of orderId paymentId plan (PLAN_CONFIGS_get (to_string plan))
                   (date_now x (clock_reads w)) userId)
      \<and> store_calls (fst (recordPaymentSuccess x env orderId paymentId signature plan userId w))
          = store_calls w
      \<and> (WARN, ''Supabase admin client not configured; skipping DB persistence'', NoDetail)
          \<in> set (console (fst (recordPaymentSuccess x env orderId paymentId signature plan userId w))))
   \<and> (supabaseAdmin env \<and> store_error x (length (store_calls w)) = Some e \<longrightarrow>
        snd (recordPaymentSuccess x env orderId paymentId signature plan userId w)
          = Inl (Error ''Failed to record payment success'')
      \<and> store_calls (fst (recordPaymentSuccess x env orderId paymentId signature plan userId w))
          = store_calls w @
            [PaymentsUpdate paymentId signature ''captured'' (ISO (date_now x (clock_reads w)))
               orderId userId]
      \<and> (ERR, ''Supabase payment update error:'', StoreErr e)
          \<in> set (console (fst (recordPaymentSuccess x env orderId paymentId signature plan userId w))))
   \<and> (supabaseAdmin env \<and> store_error x (length (store_calls w)) = None
        \<and> store_error x (Suc (length (store_calls w))) = Some e \<longrightarrow>
        snd (recordPaymentSuccess x env orderId paymentId signature plan userId w)
          = Inl (Error ''Failed to record payment success'')
      \<and> store_calls (fst (recordPaymentSuccess x env orderId paymentId signature plan userId w))
          = store_calls w @
            [PaymentsUpdate paymentId signature ''captured'' (ISO (date_now x (clock_reads w)))
               orderId userId,
             SubscriptionsUpsert (subscription_of userId plan paymentId
               (date_now x (clock_reads w + 1)) (date_now x (clock_reads w + 2)))]
      \<and> (ERR, ''Supabase subscription upsert error:'', StoreErr e)
          \<in> set (console (fst (recordPaymentSuccess x env orderId paymentId signature plan userId w))))
   \<and> (supabaseAdmin env \<and> store_error x (length (store_calls w)) = None
        \<and> store_error x (Suc (length (store_calls w))) = None
        \<and> store_error x (Suc (Suc (length (store_calls w)))) = Some e \<longrightarrow>
        snd (recordPaymentSuccess x env orderId paymentId signature plan userId w)
          = Inl (Error ''Failed to record payment success'')
      \<and> store_calls (fst (recordPaymentSuccess x env orderId paymentId signature plan userId w))
          = store_calls w @
            [PaymentsUpdate paymentId signature ''captured'' (ISO (date_now x (clock_reads w)))
               orderId userId,
             SubscriptionsUpsert (subscription_of userId plan paymentId
               (date_now x (clock_reads w + 1)) (date_now x (clock_reads w + 2))),
             ProfilesUpdate plan userId]
      \<and> (ERR, ''Supabase profile update error:'', StoreErr e)
          \<in> set (console (fst (recordPaymentSuccess x env orderId paymentId signature plan userId w))))
   \<and> (supabaseAdmin env \<and> store_error x (length (store_calls w)) = None
        \<and> store_error x (Suc (length (store_calls w))) = None
        \<and> store_error x (Suc (Suc (length (store_calls w)))) = None \<longrightarrow>
        snd (recordPaymentSuccess x env orderId paymentId signature plan userId w)
          = Inr (success_of orderId paymentId plan (PLAN_CONFIGS_get (to_string plan))
                   (date_now x (clock_reads w + 3)) userId)
      \<and> store_calls (fst (recordPaymentSuccess x env orderId paymentId signature plan userId w))
          = store_calls w @
            [PaymentsUpdate paymentId signature ''captured'' (ISO (date_now x (clock_reads w)))
               orderId userId,
             SubscriptionsUpsert (subscription_of userId plan paymentId
               (date_now x (clock_reads w + 1)) (date_now x (clock_reads w + 2))),
             ProfilesUpdate plan userId])
   \<and> snd (persist_again x orderId paymentId signature plan userId w') = Inr ()
   \<and> store_calls (fst (persist_again x orderId paymentId signature plan userId w'))
       = store_calls w' @
         [PaymentsUpdate paymentId signature ''captured'' (ISO (date_now x (clock_reads w')))
            orderId userId,
          SubscriptionsUpsert
            \<lparr>sub_user_id = userId, sub_plan_id = plan, sub_provider = None,
             sub_status = ''active'', sub_razorpay_payment_id = paymentId,
             sub_current_period_start = ISO (date_now x (clock_reads w' + 1)),
             sub_current_period_end = ISO (date_now x (clock_reads w' + 2) + 2592000000)\<rparr>,
          ProfilesUpdate plan userId]"
  using assms persist_again_calls [of x orderId paymentId signature plan userId w']
  by (simp add: rps_no_client rps_first_fails rps_second_fails rps_third_fails rps_succeeds)

theorem recordPaymentSuccess_store_failure_witness:
  "passes_checks store_down sample_environment (Some ''order_1'') (Some ''pay_1'')
     (Some ''digest(secret,order_1|pay_1)'') (Some ''pro'') (Some ''u1'') empty_world
   \<and> snd (recordPaymentSuccess store_down sample_environment (Some ''order_1'') (Some ''pay_1'')
          (Some ''digest(secret,order_1|pay_1)'') (Some ''pro'') (Some ''u1'') empty_world)
       = Inl (Error ''Failed to record payment success'')
   \<and> (ERR, ''Supabase payment update error:'', StoreErr ''database unavailable'')
       \<in> set (console (fst (recordPaymentSuccess store_down sample_environment (Some ''order_1'')
            (Some ''pay_1'') (Some ''digest(secret,order_1|pay_1)'') (Some ''pro'') (Some ''u1'')
            empty_world)))
   \<and> passes_checks sample_collaborators (sample_environment\<lparr>SUPABASE_URL := None\<rparr>)
       (Some ''order_1'') (Some ''pay_1'') (Some ''digest(secret,order_1|pay_1)'') (Some ''pro'')
       (Some ''u1'') empty_world
   \<and> snd (recordPaymentSuccess sample_collaborators (sample_environment\<lparr>SUPABASE_URL := None\<rparr>)
          (Some ''order_1'') (Some ''pay_1'') (Some ''digest(secret,order_1|pay_1)'') (Some ''pro'')
          (Some ''u1'') empty_world)
       = Inr (success_of (Some ''order_1'') (Some ''pay_1'') (Some ''pro'')
                (PLAN_CONFIGS_get ''pro'') 1700000000000 (Some ''u1''))
   \<and> store_calls (fst (recordPaymentSuccess sample_collaborators
          (sample_environment\<lparr>SUPABASE_URL := None\<rparr>)
          (Some ''order_1'') (Some ''pay_1'') (Some ''digest(secret,order_1|pay_1)'') (Some ''pro'')
          (Some ''u1'') empty_world)) = []"
  using recordPaymentSuccess_store_failure [OF sample_passes(2) [of empty_world],
      of "''database unavailable''"]
    recordPaymentSuccess_store_failure [OF sample_passes(3) [of empty_world]]
  by (simp add: sample_passes sample_facts store_down_simps sample_simps to_string_def
      empty_world_def)

text \<open>
  The claim as the specification words it fails: with a valid signature, a plan of the
  catalog and a database that answers the first call with an error, the call throws,
  and the payment update is the only call that was sent; the callback handler answers
  500.
\<close>

theorem recordPaymentSuccess_store_down_counterexample:
  "passes_checks store_down sample_environment (Some ''order_1'') (Some ''pay_1'')
     (Some ''digest(secret,order_1|pay_1)'') (Some ''pro'') (Some ''u1'') empty_world
   \<and> supabaseAdmin sample_environment
   \<and> store_error store_down 0 = Some ''database unavailable''
   \<and> snd (recordPaymentSuccess store_down sample_environment (Some ''order_1'') (Some ''pay_1'')
          (Some ''digest(secret,order_1|pay_1)'') (Some ''pro'') (Some ''u1'') empty_world)
       = Inl (Error ''Failed to record payment success'')
   \<and> store_calls (fst (recordPaymentSuccess store_down sample_environment (Some ''order_1'')
          (Some ''pay_1'') (Some ''digest(secret,order_1|pay_1)'') (Some ''pro'') (Some ''u1'')
          empty_world))
       = [PaymentsUpdate (Some ''pay_1'') (Some ''digest(secret,order_1|pay_1)'') ''captured''
            (ISO 1700000000000) (Some ''order_1'') (Some ''u1'')]
   \<and> snd (post_success store_down sample_environment valid_request empty_world)
       = Inr (Send 500 ''Payment verification failed.'')"
  using rps_first_fails [OF sample_passes(2) sample_facts(1), of empty_world
      "''database unavailable''"] store_down_response
  by (simp add: sample_passes sample_facts store_down_simps empty_world_def)

subsection \<open>What the caller is thrown\<close>

text \<open>
  Claim C10. Whatever \<open>recordPaymentSuccess\<close> throws to its caller is
  \<open>new Error('Failed to record payment success')\<close>. The example after it runs the four
  causes (a missing parameter, a tampered signature, an unknown plan, a database error):
  the errors raised in the \<open>try\<close> block differ, the error thrown to the caller is the
  same.
\<close>

theorem recordPaymentSuccess_generic_error:
  "snd (recordPaymentSuccess x env orderId paymentId signature plan userId w) = Inl e
   \<Longrightarrow> e = Error ''Failed to record payment success''"
  by (auto simp: rps_eq split: prod.splits sum.splits)

theorem recordPaymentSuccess_generic_error_witness:
  "(snd (recordPaymentSuccess_try sample_collaborators sample_environment (Some ''order_1'')
           (Some ''pay_1'') (Some ''digest(secret,order_1|pay_1)'') (Some ''pro'') None empty_world)
      = Inl (Error ''Missing required parameters: orderId=true, paymentId=true, signature=true, plan=true, userId=false'')
    \<and> snd (recordPaymentSuccess sample_collaborators sample_environment (Some ''order_1'')
           (Some ''pay_1'') (Some ''digest(secret,order_1|pay_1)'') (Some ''pro'') None empty_world)
      = Inl (Error ''Failed to record payment success''))
   \<and> (snd (recordPaymentSuccess_try sample_collaborators sample_environment (Some ''order_1'')
           (Some ''pay_1'') (Some ''tampered'') (Some ''pro'') (Some ''u1'') empty_world)
      = Inl (Error ''Invalid payment signature'')
    \<and> snd (recordPaymentSuccess sample_collaborators sample_environment (Some ''order_1'')
           (Some ''pay_1'') (Some ''tampered'') (Some ''pro'') (Some ''u1'') empty_world)
      = Inl (Error ''Failed to record payment success''))
   \<and> (snd (recordPaymentSuccess_try sample_collaborators sample_environment (Some ''order_1'')
           (Some ''pay_1'') (Some ''digest(secret,order_1|pay_1)'') (Some ''bogus'') (Some ''u1'')
           empty_world)
      = Inl (Error ''Invalid plan: bogus'')
    \<and> snd (recordPaymentSuccess sample_collaborators sample_environment (Some ''order_1'')
           (Some ''pay_1'') (Some ''digest(secret,order_1|pay_1)'') (Some ''bogus'') (Some ''u1'')
           empty_world)
      = Inl (Error ''Failed to record payment success''))
   \<and> (snd (recordPaymentSuccess_try store_down sample_environment (Some ''order_1'')
           (Some ''pay_1'') (Some ''digest(secret,order_1|pay_1)'') (Some ''pro'') (Some ''u1'')
           empty_world)
      = Inl (Error ''Payment verification succeeded but database update failed: Failed to update payment record'')
    \<and> snd (recordPaymentSuccess store_down sample_environment (Some ''order_1'')
           (Some ''pay_1'') (Some ''digest(secret,order_1|pay_1)'') (Some ''pro'') (Some ''u1'')
           empty_world)
      = Inl (Error ''Failed to record payment success''))"
proof -
  have t1: "snd (recordPaymentSuccess_try sample_collaborators sample_environment (Some ''order_1'')
           (Some ''pay_1'') (Some ''digest(secret,order_1|pay_1)'') (Some ''pro'') None empty_world)
      = Inl (Error ''Missing required parameters: orderId=true, paymentId=true, signature=true, plan=true, userId=false'')"
    by (simp add: try_missing truthy_def missing_parameters_message_def bool_string_def)
  have v2: "snd (verifyPaymentSignature sample_collaborators sample_environment (Some ''order_1'')
          (Some ''pay_1'') (Some ''tampered'') empty_world) = Inr False"
    by (simp add: verify_digest [where secret = "''secret''"] sample_simps)
  have t2: "snd (recordPaymentSuccess_try sample_collaborators sample_environment (Some ''order_1'')
           (Some ''pay_1'') (Some ''tampered'') (Some ''pro'') (Some ''u1'') empty_world)
      = Inl (Error ''Invalid payment signature'')"
    using try_invalid [OF _ _ _ _ _ v2, of "Some ''pro''" "Some ''u1''"]
    by (auto simp: truthy_def)
  have t3: "snd (recordPaymentSuccess_try sample_collaborators sample_environment (Some ''order_1'')
           (Some ''pay_1'') (Some ''digest(secret,order_1|pay_1)'') (Some ''bogus'') (Some ''u1'')
           empty_world)
      = Inl (Error ''Invalid plan: bogus'')"
    by (subst try_unknown_plan [where w = empty_world])
       (simp_all add: truthy_def sample_verify to_string_def bogus_plan)
  have t4: "snd (recordPaymentSuccess_try store_down sample_environment (Some ''order_1'')
           (Some ''pay_1'') (Some ''digest(secret,order_1|pay_1)'') (Some ''pro'') (Some ''u1'')
           empty_world)
      = Inl (Error ''Payment verification succeeded but database update failed: Failed to update payment record'')"
    by (simp add: passes_checks_try_eq [OF sample_passes(2)]
        par_persist_Inl [OF sample_facts(1) persist_first_fails] store_down_simps)
  have f: "\<exists>e. snd (recordPaymentSuccess x env a b c d u w) = Inl e"
    if "\<exists>e. snd (recordPaymentSuccess_try x env a b c d u w) = Inl e" for x env a b c d u w
    using that by (auto simp: rps_eq split: prod.splits sum.splits)
  have g: "snd (recordPaymentSuccess x env a b c d u w) = Inl (Error ''Failed to record payment success'')"
    if "\<exists>e. snd (recordPaymentSuccess_try x env a b c d u w) = Inl e" for x env a b c d u w
    using f [OF that] recordPaymentSuccess_generic_error by blast
  show ?thesis
    using t1 t2 t3 t4 by (simp add: g)
qed

section \<open>The callback handler \<open>POST /success\<close>\<close>

text \<open>
  Claim C4, as the code has it. The handler reads the payment id, the order id and the
  signature from the form body only (an absent or empty field is the empty string), and
  the plan and the user id from the body, then from the query string, then as the empty
  string. It calls \<open>recordPaymentSuccess\<close> with them.
  \<^item> When that call throws, the handler writes the error to the console and answers
    \<open>500 Payment verification failed.\<close>; it sends nothing to the store and does not
    redirect.
  \<^item> When that call returns, the handler answers with the redirect to \<open>/success\<close>
    carrying \<open>paymentId\<close>, \<open>orderId\<close>, \<open>signature\<close> and \<open>plan\<close>, whatever the
    database answers to the store calls the handler then makes itself.
\<close>

theorem post_success_redirect:
  assumes "callback_fields req = (paymentId, orderId, signature, plan, userId)"
  shows "(snd (recordPaymentSuccess x env orderId paymentId signature plan userId w) = Inl e \<longrightarrow>
            snd (post_success x env req w) = Inr (Send 500 ''Payment verification failed.'')
          \<and> store_calls (fst (post_success x env req w))
             = store_calls (fst (recordPaymentSuccess x env orderId paymentId signature plan userId w))
          \<and> (ERR, ''POST /success verification error:'', Exn e)
             \<in> set (console (fst (post_success x env req w))))
       \<and> (snd (recordPaymentSuccess x env orderId paymentId signature plan userId w) = Inr r \<longrightarrow>
            snd (post_success x env req w)
            = Inr (Redirect (''/success?'' @ url_search_params x
                     [(''paymentId'', to_string paymentId), (''orderId'', to_string orderId),
                      (''signature'', to_string signature), (''plan'', to_string plan)])))
       \<and> paymentId = (if truthy (req_body req ''razorpay_payment_id'')
                       then req_body req ''razorpay_payment_id'' else Some '''')
       \<and> orderId = (if truthy (req_body req ''razorpay_order_id'')
                     then req_body req ''razorpay_order_id'' else Some '''')
       \<and> signature = (if truthy (req_body req ''razorpay_signature'')
                       then req_body req ''razorpay_signature'' else Some '''')
       \<and> plan = (if truthy (req_body req ''plan'') then req_body req ''plan''
                  else if truthy (req_query req ''plan'') then req_query req ''plan''
                  else Some '''')
       \<and> userId = (if truthy (req_body req ''userId'') then req_body req ''userId''
                    else if truthy (req_query req ''userId'') then req_query req ''userId''
                    else Some '''')"
proof -
  have f: "paymentId = (if truthy (req_body req ''razorpay_payment_id'')
                       then req_body req ''razorpay_payment_id'' else Some '''')
       \<and> orderId = (if truthy (req_body req ''razorpay_order_id'')
                     then req_body req ''razorpay_order_id'' else Some '''')
       \<and> signature = (if truthy (req_body req ''razorpay_signature'')
                       then req_body req ''razorpay_signature'' else Some '''')
       \<and> plan = (if truthy (req_body req ''plan'') then req_body req ''plan''
                  else if truthy (req_query req ''plan'') then req_query req ''plan''
                  else Some '''')
       \<and> userId = (if truthy (req_body req ''userId'') then req_body req ''userId''
                    else if truthy (req_query req ''userId'') then req_query req ''userId''
                    else Some '''')"
    using assms by (auto simp: callback_fields_def js_or_def)
  have g: "(snd (recordPaymentSuccess x env orderId paymentId signature plan userId w) = Inl e \<longrightarrow>
            snd (post_success x env req w) = Inr (Send 500 ''Payment verification failed.'')
          \<and> store_calls (fst (post_success x env req w))
             = store_calls (fst (recordPaymentSuccess x env orderId paymentId signature plan userId w))
          \<and> (ERR, ''POST /success verification error:'', Exn e)
             \<in> set (console (fst (post_success x env req w))))
       \<and> (snd (recordPaymentSuccess x env orderId paymentId signature plan userId w) = Inr r \<longrightarrow>
            snd (post_success x env req w)
            = Inr (Redirect (''/success?'' @ url_search_params x
                     [(''paymentId'', to_string paymentId), (''orderId'', to_string orderId),
                      (''signature'', to_string signature), (''plan'', to_string plan)])))"
    by (cases "recordPaymentSuccess x env orderId paymentId signature plan userId w")
       (auto simp: post_success_eq [OF assms] success_redirect_def Let_def)
  from f g show ?thesis by blast
qed

theorem post_success_redirect_witness:
  "callback_fields valid_request
   = (Some ''pay_1'', Some ''order_1'', Some ''digest(secret,order_1|pay_1)'', Some ''pro'', Some ''u1'')
   \<and> req_body valid_request ''plan'' = None
   \<and> req_query valid_request ''plan'' = Some ''pro''
   \<and> snd (recordPaymentSuccess (store_down_from 3) sample_environment (Some ''order_1'')
          (Some ''pay_1'') (Some ''digest(secret,order_1|pay_1)'') (Some ''pro'') (Some ''u1'')
          empty_world)
     = Inr (success_of (Some ''order_1'') (Some ''pay_1'') (Some ''pro'') (PLAN_CONFIGS_get ''pro'')
              1700000000003 (Some ''u1''))
   \<and> store_error (store_down_from 3) 3 = Some ''database unavailable''
   \<and> snd (post_success (store_down_from 3) sample_environment valid_request empty_world)
     = Inr (Redirect
         ''/success?paymentId=pay_1&orderId=order_1&signature=digest(secret,order_1|pay_1)&plan=pro&'')
   \<and> callback_fields tampered_request
     = (Some ''pay_1'', Some ''order_1'', Some ''tampered'', Some ''pro'', Some ''u1'')
   \<and> snd (post_success sample_collaborators sample_environment tampered_request empty_world)
     = Inr (Send 500 ''Payment verification failed.'')"
proof -
  have s: "snd (recordPaymentSuccess (store_down_from 3) sample_environment (Some ''order_1'')
          (Some ''pay_1'') (Some ''digest(secret,order_1|pay_1)'') (Some ''pro'') (Some ''u1'')
          empty_world)
     = Inr (success_of (Some ''order_1'') (Some ''pay_1'') (Some ''pro'') (PLAN_CONFIGS_get ''pro'')
              1700000000003 (Some ''u1''))"
    by (subst rps_succeeds [OF store_down_from_passes sample_facts(1)])
       (simp_all add: store_down_from_simps empty_world_def to_string_def)
  have w1: "snd (post_success (store_down_from 3) sample_environment valid_request empty_world)
     = Inr (Redirect
         ''/success?paymentId=pay_1&orderId=order_1&signature=digest(secret,order_1|pay_1)&plan=pro&'')"
    using post_success_redirect [OF request_fields(1), of "store_down_from 3" sample_environment
        empty_world _ "success_of (Some ''order_1'') (Some ''pay_1'') (Some ''pro'')
          (PLAN_CONFIGS_get ''pro'') 1700000000003 (Some ''u1'')"] s
    by (simp add: store_down_from_simps to_string_def)
  have w2: "snd (post_success sample_collaborators sample_environment tampered_request empty_world)
     = Inr (Send 500 ''Payment verification failed.'')"
    using post_success_redirect [OF request_fields(2), of sample_collaborators sample_environment
        empty_world "Error ''Failed to record payment success''"] tampered_fails
    by simp
  have q1: "req_body valid_request ''plan'' = None"
    and q2: "req_query valid_request ''plan'' = Some ''pro''"
    by (simp_all add: valid_request_def callback_request_def)
  have e: "store_error (store_down_from 3) 3 = Some ''database unavailable''"
    by (simp add: store_down_from_simps)
  show ?thesis
    by (intro conjI request_fields(1) q1 q2 s e w1 request_fields(2) w2)
qed

text \<open>
  The claim as the specification words it fails twice. A callback with a tampered
  signature makes \<open>recordPaymentSuccess\<close> throw, and the handler answers 500, not a
  redirect. And a callback whose three gateway fields are in the query string and not in
  the form is read as having them empty: the query string is not consulted for them.
\<close>

theorem post_success_no_redirect_counterexample:
  "snd (recordPaymentSuccess sample_collaborators sample_environment (Some ''order_1'')
          (Some ''pay_1'') (Some ''tampered'') (Some ''pro'') (Some ''u1'') empty_world)
     = Inl (Error ''Failed to record payment success'')
   \<and> snd (post_success sample_collaborators sample_environment tampered_request empty_world)
     = Inr (Send 500 ''Payment verification failed.'')
   \<and> req_body query_only_request ''razorpay_order_id'' = None
   \<and> req_query query_only_request ''razorpay_order_id'' = Some ''order_1''
   \<and> callback_fields query_only_request = (Some '''', Some '''', Some '''', Some ''pro'', Some ''u1'')
   \<and> snd (post_success sample_collaborators sample_environment query_only_request empty_world)
     = Inr (Send 500 ''Payment verification failed.'')"
proof -
  have m: "snd (recordPaymentSuccess sample_collaborators sample_environment (Some '''')
          (Some '''') (Some '''') (Some ''pro'') (Some ''u1'') empty_world)
     = Inl (Error ''Failed to record payment success'')"
    by (rule rps_fails_generic) (simp add: try_missing truthy_def)
  have p2: "snd (post_success sample_collaborators sample_environment query_only_request empty_world)
     = Inr (Send 500 ''Payment verification failed.'')"
    using m
    by (cases "recordPaymentSuccess sample_collaborators sample_environment (Some '''')
          (Some '''') (Some '''') (Some ''pro'') (Some ''u1'') empty_world")
       (simp add: post_success_eq [OF request_fields(3)])
  have q1: "req_body query_only_request ''razorpay_order_id'' = None"
    and q2: "req_query query_only_request ''razorpay_order_id'' = Some ''order_1''"
    by (simp_all add: query_only_request_def callback_request_def)
  show ?thesis
    by (intro conjI tampered_fails tampered_response q1 q2 request_fields(3) p2)
qed

section \<open>The subscription of a user\<close>

lemma merge_subscription_sent:
  "sub_provider new \<noteq> None \<Longrightarrow> merge_subscription old new = new"
  by (cases "sub_provider new") (simp_all add: merge_subscription_def)

lemma merge_subscription_user [simp]:
  "sub_user_id (merge_subscription old new) = sub_user_id new"
  by (simp add: merge_subscription_def)

lemma upsert_user_ids:
  "set (map sub_user_id (upsert_subscriptions new rs))
   = insert (sub_user_id new) (set (map sub_user_id rs))"
  by (induction rs) auto

lemma upsert_distinct:
  "distinct (map sub_user_id rs) \<Longrightarrow> distinct (map sub_user_id (upsert_subscriptions new rs))"
proof (induction rs)
  case Nil
  then show ?case by simp
next
  case (Cons r rs)
  show ?case
  proof (cases "sub_user_id r = sub_user_id new")
    case True
    with Cons.prems show ?thesis by simp
  next
    case False
    have "sub_user_id r \<notin> set (map sub_user_id (upsert_subscriptions new rs))"
      using Cons.prems False by (simp add: upsert_user_ids del: set_map)
    with Cons False show ?thesis by simp
  qed
qed

lemma upsert_others:
  "filter (\<lambda>r. sub_user_id r \<noteq> sub_user_id new) (upsert_subscriptions new rs)
   = filter (\<lambda>r. sub_user_id r \<noteq> sub_user_id new) rs"
  by (induction rs) auto

lemma upsert_own:
  assumes "distinct (map sub_user_id rs)" and "sub_provider new \<noteq> None"
  shows "filter (\<lambda>r. sub_user_id r = sub_user_id new) (upsert_subscriptions new rs) = [new]"
  using assms
proof (induction rs)
  case Nil
  then show ?case by simp
next
  case (Cons r rs)
  show ?case
  proof (cases "sub_user_id r = sub_user_id new")
    case True
    with Cons.prems have "sub_user_id new \<notin> sub_user_id ` set rs" by auto
    then have "filter (\<lambda>r. sub_user_id r = sub_user_id new) rs = []"
      by (simp add: filter_empty_conv) (metis image_eqI)
    with True Cons.prems show ?thesis
      by (simp add: merge_subscription_sent)
  next
    case False
    with Cons show ?thesis by simp
  qed
qed

lemma upsert_twice:
  assumes "sub_user_id a = sub_user_id b" and "sub_provider b \<noteq> None"
  shows "upsert_subscriptions b (upsert_subscriptions a rs) = upsert_subscriptions b rs"
  using assms
  by (induction rs) (simp_all add: merge_subscription_sent)

lemma upsert_own_payload:
  assumes "distinct (map sub_user_id rs)"
  shows "filter (\<lambda>r. sub_user_id r = userId)
           (upsert_subscriptions (subscription_of userId plan paymentId t2 t3) rs)
         = [subscription_of userId plan paymentId t2 t3]"
  using upsert_own [OF assms, of "subscription_of userId plan paymentId t2 t3"]
  by (simp add: subscription_of_def)

lemma upsert_others_payload:
  "filter (\<lambda>r. sub_user_id r \<noteq> userId)
     (upsert_subscriptions (subscription_of userId plan paymentId t2 t3) rs)
   = filter (\<lambda>r. sub_user_id r \<noteq> userId) rs"
  using upsert_others [of "subscription_of userId plan paymentId t2 t3" rs]
  by (simp add: subscription_of_def)

lemma preserves_return: "preserves (js_return v)"
  by (simp add: preserves_def js_return_def)

lemma preserves_throw: "preserves (js_throw e)"
  by (simp add: preserves_def js_throw_def)

lemma preserves_console: "preserves (console_write l msg d)"
  by (simp add: preserves_def console_write_def one_row_per_user_def)

lemma preserves_Date_now: "preserves (Date_now x)"
  by (simp add: preserves_def Date_now_def one_row_per_user_def)

lemma preserves_createHmac: "preserves (createHmac_sha256_hex x key data)"
  by (simp add: preserves_def createHmac_sha256_hex_def)

lemma preserves_bind:
  assumes "preserves m" and "\<And>v. preserves (f v)"
  shows "preserves (js_bind m f)"
  unfolding preserves_def
proof (intro allI impI)
  fix w
  assume i: "one_row_per_user w"
  obtain w' r where m: "m w = (w', r)" by (cases "m w")
  with assms(1) i have i': "one_row_per_user w'"
    by (auto simp: preserves_def)
  show "one_row_per_user (fst (js_bind m f w))"
  proof (cases r)
    case (Inl e)
    with m i' show ?thesis by (simp add: js_bind_def)
  next
    case (Inr v)
    with m i' assms(2) [of v] show ?thesis
      by (simp add: js_bind_def preserves_def)
  qed
qed

lemma preserves_try_catch:
  assumes "preserves m" and "\<And>e. preserves (h e)"
  shows "preserves (try_catch m h)"
  unfolding preserves_def
proof (intro allI impI)
  fix w
  assume i: "one_row_per_user w"
  obtain w' r where m: "m w = (w', r)" by (cases "m w")
  with assms(1) i have i': "one_row_per_user w'"
    by (auto simp: preserves_def)
  show "one_row_per_user (fst (try_catch m h w))"
  proof (cases r)
    case (Inl e)
    with m i' assms(2) [of e] show ?thesis
      by (simp add: try_catch_def preserves_def)
  next
    case (Inr v)
    with m i' show ?thesis by (simp add: try_catch_def)
  qed
qed

lemma preserves_supabase: "preserves (supabase x call)"
  unfolding preserves_def
proof (intro allI impI)
  fix w
  assume "one_row_per_user w"
  then show "one_row_per_user (fst (supabase x call w))"
    by (cases call; cases "store_error x (length (store_calls w))")
       (simp_all add: supabase_def Let_def one_row_per_user_def upsert_distinct)
qed

lemma preserves_throw_on: "preserves (throw_on error label message)"
  by (cases error)
     (simp_all add: throw_on_def preserves_return preserves_bind preserves_console preserves_throw)

lemma preserves_log_on: "preserves (log_on error label)"
  by (cases error) (simp_all add: log_on_def preserves_return preserves_console)

lemmas preserves_intros = preserves_return preserves_throw preserves_console preserves_Date_now
  preserves_createHmac preserves_supabase preserves_throw_on preserves_log_on
  preserves_bind preserves_try_catch

lemma preserves_persist: "preserves (persist x orderId paymentId signature plan userId)"
  unfolding persist_def by (intro preserves_intros)

lemma preserves_persist_again: "preserves (persist_again x orderId paymentId signature plan userId)"
  unfolding persist_again_def by (intro preserves_intros)

lemma preserves_verify: "preserves (verifyPaymentSignature x env orderId paymentId signature)"
  unfolding verifyPaymentSignature_def verifyPaymentSignature_try_def
  by (auto simp: Let_def intro!: preserves_intros)

lemma preserves_persist_and_return:
  "preserves (persist_and_return x env orderId paymentId signature plan planConfig userId)"
  unfolding persist_and_return_def
  by (auto intro!: preserves_intros preserves_persist)

lemma preserves_recordPaymentSuccess:
  "preserves (recordPaymentSuccess x env orderId paymentId signature plan userId)"
  unfolding recordPaymentSuccess_def recordPaymentSuccess_try_def
  by (auto simp: Let_def intro!: preserves_intros preserves_verify preserves_persist_and_return)

lemma preserves_post_success: "preserves (post_success x env req)"
  unfolding post_success_def
  by (auto simp: Let_def split: prod.splits
      intro!: preserves_intros preserves_recordPaymentSuccess preserves_persist_again)

lemma rps_twice:
  assumes "passes_checks x env orderId paymentId signature plan userId w"
    and "supabaseAdmin env"
    and "\<forall>i < 6. store_error x (length (store_calls w) + i) = None"
  shows "snd (recordPaymentSuccess x env orderId paymentId signature plan userId w)
         = Inr (success_of orderId paymentId plan (PLAN_CONFIGS_get (to_string plan))
                  (date_now x (clock_reads w + 3)) userId)"
    and "snd (recordPaymentSuccess x env orderId paymentId signature plan userId
               (fst (recordPaymentSuccess x env orderId paymentId signature plan userId w)))
         = Inr (success_of orderId paymentId plan (PLAN_CONFIGS_get (to_string plan))
                  (date_now x (clock_reads w + 7)) userId)"
    and "subscriptions (fst (recordPaymentSuccess x env orderId paymentId signature plan userId w))
         = upsert_subscriptions
             (subscription_of userId plan paymentId
                (date_now x (clock_reads w + 1)) (date_now x (clock_reads w + 2)))
             (subscriptions w)"
    and "subscriptions (fst (recordPaymentSuccess x env orderId paymentId signature plan userId
               (fst (recordPaymentSuccess x env orderId paymentId signature plan userId w))))
         = upsert_subscriptions
             (subscription_of userId plan paymentId
                (date_now x (clock_reads w + 5)) (date_now x (clock_reads w + 6)))
             (subscriptions w)"
proof -
  let ?k = "length (store_calls w)"
  have e: "store_error x ?k = None" "store_error x (Suc ?k) = None"
    "store_error x (Suc (Suc ?k)) = None" "store_error x (Suc (Suc (Suc ?k))) = None"
    "store_error x (Suc (Suc (Suc (Suc ?k)))) = None"
    "store_error x (Suc (Suc (Suc (Suc (Suc ?k))))) = None"
    using assms(3) [rule_format, of 0] assms(3) [rule_format, of 1] assms(3) [rule_format, of 2]
      assms(3) [rule_format, of 3] assms(3) [rule_format, of 4] assms(3) [rule_format, of 5]
    by (simp_all add: eval_nat_numeral)
  note one = rps_succeeds [OF assms(1,2) e(1,2,3)]
  let ?w1 = "fst (recordPaymentSuccess x env orderId paymentId signature plan userId w)"
  have k1: "length (store_calls ?w1) = Suc (Suc (Suc ?k))"
    and c1: "clock_reads ?w1 = clock_reads w + 4"
    and s1: "subscriptions ?w1 = upsert_subscriptions
             (subscription_of userId plan paymentId
                (date_now x (clock_reads w + 1)) (date_now x (clock_reads w + 2)))
             (subscriptions w)"
    by (simp_all add: one)
  note two = rps_succeeds [OF passes_checks_world [OF assms(1)] assms(2), of ?w1,
      unfolded k1, OF e(4,5,6)]
  show "snd (recordPaymentSuccess x env orderId paymentId signature plan userId w)
         = Inr (success_of orderId paymentId plan (PLAN_CONFIGS_get (to_string plan))
                  (date_now x (clock_reads w + 3)) userId)"
    by (simp add: one)
  show "subscriptions ?w1 = upsert_subscriptions
             (subscription_of userId plan paymentId
                (date_now x (clock_reads w + 1)) (date_now x (clock_reads w + 2)))
             (subscriptions w)"
    by (rule s1)
  show "snd (recordPaymentSuccess x env orderId paymentId signature plan userId ?w1)
         = Inr (success_of orderId paymentId plan (PLAN_CONFIGS_get (to_string plan))
                  (date_now x (clock_reads w + 7)) userId)"
    by (simp add: two c1 add.commute)
  have "subscriptions (fst (recordPaymentSuccess x env orderId paymentId signature plan userId ?w1))
        = upsert_subscriptions
             (subscription_of userId plan paymentId
                (date_now x (clock_reads w + 5)) (date_now x (clock_reads w + 6)))
             (subscriptions ?w1)"
    by (simp add: two c1 add.commute)
  then show "subscriptions (fst (recordPaymentSuccess x env orderId paymentId signature plan userId ?w1))
        = upsert_subscriptions
             (subscription_of userId plan paymentId
                (date_now x (clock_reads w + 5)) (date_now x (clock_reads w + 6)))
             (subscriptions w)"
    by (simp add: s1 upsert_twice subscription_of_def)
qed

text \<open>
  Claim C9, as the code has it. Call \<open>recordPaymentSuccess\<close> twice with the same inputs,
  both calls passing the checks and the database answering all six store calls. Both
  calls return, and the subscriptions table after the second call is the table before
  the first call with the second call's row upserted: the first call's row is
  overwritten. The rows of the other users are what they were. When no user had two rows
  before, no user has two rows after either call, and the user's one row has the plan,
  the provider \<open>razorpay\<close>, the status \<open>active\<close>, the payment id, as period start the
  second call's reading of the clock for it, and as period end 30 days after the next
  reading of the clock: the two bounds come from two readings (the sixth and the seventh
  of the two calls together), so the period is 30 days long only when the clock has not
  moved between them. And one row per user is an invariant: whatever its inputs and
  whatever its outcome, no call of \<open>recordPaymentSuccess\<close> and no callback handled by
  \<open>POST /success\<close> gives a user a second row.
\<close>

theorem recordPaymentSuccess_twice:
  assumes "passes_checks x env orderId paymentId signature plan userId w"
    and "supabaseAdmin env"
    and "\<forall>i < 6. store_error x (length (store_calls w) + i) = None"
    and "w1 = fst (recordPaymentSuccess x env orderId paymentId signature plan userId w)"
    and "w2 = fst (recordPaymentSuccess x env orderId paymentId signature plan userId w1)"
  shows "(\<exists>r. snd (recordPaymentSuccess x env orderId paymentId signature plan userId w) = Inr r)
       \<and> (\<exists>r. snd (recordPaymentSuccess x env orderId paymentId signature plan userId w1) = Inr r)
       \<and> subscriptions w2
           = upsert_subscriptions
               \<lparr>sub_user_id = userId, sub_plan_id = plan, sub_provider = Some ''razorpay'',
                sub_status = ''active'', sub_razorpay_payment_id = paymentId,
                sub_current_period_start = ISO (date_now x (clock_reads w + 5)),
                sub_current_period_end = ISO (date_now x (clock_reads w + 6) + 2592000000)\<rparr>
               (subscriptions w)
       \<and> filter (\<lambda>r. sub_user_id r \<noteq> userId) (subscriptions w2)
           = filter (\<lambda>r. sub_user_id r \<noteq> userId) (subscriptions w)
       \<and> (one_row_per_user w \<longrightarrow>
            one_row_per_user w1
          \<and> one_row_per_user w2
          \<and> filter (\<lambda>r. sub_user_id r = userId) (subscriptions w1)
             = [\<lparr>sub_user_id = userId, sub_plan_id = plan, sub_provider = Some ''razorpay'',
                 sub_status = ''active'', sub_razorpay_payment_id = paymentId,
                 sub_current_period_start = ISO (date_now x (clock_reads w + 1)),
                 sub_current_period_end = ISO (date_now x (clock_reads w + 2) + 2592000000)\<rparr>]
          \<and> filter (\<lambda>r. sub_user_id r = userId) (subscriptions w2)
             = [\<lparr>sub_user_id = userId, sub_plan_id = plan, sub_provider = Some ''razorpay'',
                 sub_status = ''active'', sub_razorpay_payment_id = paymentId,
                 sub_current_period_start = ISO (date_now x (clock_reads w + 5)),
                 sub_current_period_end = ISO (date_now x (clock_reads w + 6) + 2592000000)\<rparr>])
       \<and> (one_row_per_user w' \<longrightarrow>
            one_row_per_user
              (fst (recordPaymentSuccess x' env' orderId' paymentId' signature' plan' userId' w'))
          \<and> one_row_per_user (fst (post_success x' env' req w')))"
proof -
  note t = rps_twice [OF assms(1,2,3)]
  let ?a = "subscription_of userId plan paymentId
              (date_now x (clock_reads w + 1)) (date_now x (clock_reads w + 2))"
  let ?b = "subscription_of userId plan paymentId
              (date_now x (clock_reads w + 5)) (date_now x (clock_reads w + 6))"
  have s1: "subscriptions w1 = upsert_subscriptions ?a (subscriptions w)"
    and s2: "subscriptions w2 = upsert_subscriptions ?b (subscriptions w)"
    by (simp_all add: assms(4,5) t)
  have o: "filter (\<lambda>r. sub_user_id r \<noteq> userId) (subscriptions w2)
           = filter (\<lambda>r. sub_user_id r \<noteq> userId) (subscriptions w)"
    by (simp add: s2 upsert_others_payload)
  have d: "one_row_per_user w1" "one_row_per_user w2"
      "filter (\<lambda>r. sub_user_id r = userId) (subscriptions w1) = [?a]"
      "filter (\<lambda>r. sub_user_id r = userId) (subscriptions w2) = [?b]"
    if "one_row_per_user w"
    using that
    by (simp_all add: one_row_per_user_def s1 s2 upsert_distinct upsert_own_payload)
  have r: "(\<exists>r. snd (recordPaymentSuccess x env orderId paymentId signature plan userId w) = Inr r)"
    "(\<exists>r. snd (recordPaymentSuccess x env orderId paymentId signature plan userId w1) = Inr r)"
    by (simp_all add: assms(4) t)
  have ab: "?a = \<lparr>sub_user_id = userId, sub_plan_id = plan, sub_provider = Some ''razorpay'',
                 sub_status = ''active'', sub_razorpay_payment_id = paymentId,
                 sub_current_period_start = ISO (date_now x (clock_reads w + 1)),
                 sub_current_period_end = ISO (date_now x (clock_reads w + 2) + 2592000000)\<rparr>"
    "?b = \<lparr>sub_user_id = userId, sub_plan_id = plan, sub_provider = Some ''razorpay'',
                 sub_status = ''active'', sub_razorpay_payment_id = paymentId,
                 sub_current_period_start = ISO (date_now x (clock_reads w + 5)),
                 sub_current_period_end = ISO (date_now x (clock_reads w + 6) + 2592000000)\<rparr>"
    by (simp_all add: subscription_of_def)
  have i: "one_row_per_user w' \<longrightarrow>
            one_row_per_user
              (fst (recordPaymentSuccess x' env' orderId' paymentId' signature' plan' userId' w'))
          \<and> one_row_per_user (fst (post_success x' env' req w'))"
    using preserves_recordPaymentSuccess [of x' env' orderId' paymentId' signature' plan' userId']
      preserves_post_success [of x' env' req]
    by (simp add: preserves_def)
  show ?thesis
    using r o d s2 i unfolding ab by blast
qed

theorem recordPaymentSuccess_twice_witness:
  "passes_checks sample_collaborators sample_environment (Some ''order_1'') (Some ''pay_1'')
     (Some ''digest(secret,order_1|pay_1)'') (Some ''pro'') (Some ''u1'') subscribed_world
   \<and> supabaseAdmin sample_environment
   \<and> one_row_per_user subscribed_world
   \<and> map sub_plan_id (subscriptions subscribed_world) = [Some ''ultra'', Some ''pro'']
   \<and> subscriptions (fst (recordPaymentSuccess sample_collaborators sample_environment
        (Some ''order_1'') (Some ''pay_1'') (Some ''digest(secret,order_1|pay_1)'') (Some ''pro'')
        (Some ''u1'')
        (fst (recordPaymentSuccess sample_collaborators sample_environment
           (Some ''order_1'') (Some ''pay_1'') (Some ''digest(secret,order_1|pay_1)'')
           (Some ''pro'') (Some ''u1'') subscribed_world))))
     = [\<lparr>sub_user_id = Some ''u1'', sub_plan_id = Some ''pro'', sub_provider = Some ''razorpay'',
         sub_status = ''active'', sub_razorpay_payment_id = Some ''pay_1'',
         sub_current_period_start = ISO 1700000000005,
         sub_current_period_end = ISO 1702592000006\<rparr>,
        \<lparr>sub_user_id = Some ''u2'', sub_plan_id = Some ''pro'', sub_provider = Some ''razorpay'',
         sub_status = ''active'', sub_razorpay_payment_id = Some ''pay_9'',
         sub_current_period_start = ISO 1699000000000,
         sub_current_period_end = ISO 1701592000000\<rparr>]"
proof -
  have d: "one_row_per_user subscribed_world"
    and p: "map sub_plan_id (subscriptions subscribed_world) = [Some ''ultra'', Some ''pro'']"
    by (simp_all add: one_row_per_user_def subscribed_world_def empty_world_def)
  from recordPaymentSuccess_twice [OF sample_passes(1) sample_facts(1) sample_no_errors refl refl,
      of subscribed_world]
  have "subscriptions (fst (recordPaymentSuccess sample_collaborators sample_environment
        (Some ''order_1'') (Some ''pay_1'') (Some ''digest(secret,order_1|pay_1)'') (Some ''pro'')
        (Some ''u1'')
        (fst (recordPaymentSuccess sample_collaborators sample_environment
           (Some ''order_1'') (Some ''pay_1'') (Some ''digest(secret,order_1|pay_1)'')
           (Some ''pro'') (Some ''u1'') subscribed_world))))
     = upsert_subscriptions
               \<lparr>sub_user_id = Some ''u1'', sub_plan_id = Some ''pro'', sub_provider = Some ''razorpay'',
                sub_status = ''active'', sub_razorpay_payment_id = Some ''pay_1'',
                sub_current_period_start = ISO (date_now sample_collaborators (clock_reads subscribed_world + 5)),
                sub_current_period_end = ISO (date_now sample_collaborators (clock_reads subscribed_world + 6) + 2592000000)\<rparr>
               (subscriptions subscribed_world)"
    by (rule conjunct1 [OF conjunct2 [OF conjunct2]])
  then show ?thesis
    using d p
    by (simp add: sample_passes sample_facts sample_simps subscribed_world_def empty_world_def
        merge_subscription_def)
qed

text \<open>
  The claim as the specification words it fails in \<open>period_end = period_start + 30 days\<close>:
  with a clock that advances one millisecond from one reading to the next, the row left
  by the second call starts at 1700000000005 and ends at 1702592000006, one millisecond
  more than 30 days later.
\<close>

theorem recordPaymentSuccess_twice_period_counterexample:
  "passes_checks sample_collaborators sample_environment (Some ''order_1'') (Some ''pay_1'')
     (Some ''digest(secret,order_1|pay_1)'') (Some ''pro'') (Some ''u1'') empty_world
   \<and> date_now sample_collaborators 5 = 1700000000005
   \<and> date_now sample_collaborators 6 = 1700000000006
   \<and> subscriptions (fst (recordPaymentSuccess sample_collaborators sample_environment
        (Some ''order_1'') (Some ''pay_1'') (Some ''digest(secret,order_1|pay_1)'') (Some ''pro'')
        (Some ''u1'')
        (fst (recordPaymentSuccess sample_collaborators sample_environment
           (Some ''order_1'') (Some ''pay_1'') (Some ''digest(secret,order_1|pay_1)'')
           (Some ''pro'') (Some ''u1'') empty_world))))
     = [\<lparr>sub_user_id = Some ''u1'', sub_plan_id = Some ''pro'', sub_provider = Some ''razorpay'',
         sub_status = ''active'', sub_razorpay_payment_id = Some ''pay_1'',
         sub_current_period_start = ISO 1700000000005,
         sub_current_period_end = ISO 1702592000006\<rparr>]
   \<and> ISO 1702592000006 \<noteq> ISO (1700000000005 + 30 * 24 * 60 * 60 * 1000)"
  using rps_twice(4) [OF sample_passes(1) sample_facts(1) sample_no_errors, of empty_world]
  by (simp add: sample_passes sample_simps empty_world_def subscription_of_def)

end
